theory Spec2Isabelle
  imports Main "HOL-Library.Word"
begin

text \<open>
  The voice client of \<open>src/main.ts\<close>: the script that asks for the microphone, fetches
  an access token, connects to the voice API and wires the page, and the handlers it
  leaves behind, as functions on an explicit state. What the browser and the SDK answer
  (outcomes of promises, the time of day, the events delivered) is a parameter.
\<close>

section \<open>JavaScript values used by main.ts\<close>

text \<open>
  A JavaScript string is a sequence of 16-bit code units. String literals of the source
  are written \<open>lit ''...''\<close>.
\<close>

type_synonym jsstring = "16 word list"

definition lit :: "string \<Rightarrow> jsstring" where
  "lit s = map (\<lambda>c. word_of_nat (of_char c)) s"

text \<open>
  The errors: the two that the browser functions modelled here throw, the error that
  \<open>createConfig\<close> of the SDK throws, and any other error, by its name.
\<close>

datatype js_error =
    InvalidCharacterError
  | TypeError
  | ConfigError
  | External jsstring

text \<open>
  The value \<open>res.json()\<close> resolves to. A number is carried as the text that
  \<open>String\<close> gives for it.
\<close>

datatype js_value =
    Undefined
  | Null
  | Bool bool
  | Num jsstring
  | Str jsstring
  | Arr "js_value list"
  | Obj "(jsstring \<times> js_value) list"

fun join_comma :: "jsstring list \<Rightarrow> jsstring" where
  "join_comma [] = []"
| "join_comma [x] = x"
| "join_comma (x # y # ys) = x @ lit '','' @ join_comma (y # ys)"

text \<open>
  \<open>String(v)\<close>. An object is converted by its \<open>toString\<close> method: the one of
  \<open>Object.prototype\<close>, unless the object has an own property of that name, which in a
  parsed JSON value is never a function, so that the conversion throws a \<open>TypeError\<close>.
  An array joins the strings of its elements, the empty string for \<open>null\<close> and
  \<open>undefined\<close>, and throws where the conversion of an element throws.
\<close>

fun String_js :: "js_value \<Rightarrow> js_error + jsstring"
  and elements_js :: "js_value list \<Rightarrow> js_error + jsstring list" where
  "String_js Undefined = Inr (lit ''undefined'')"
| "String_js Null = Inr (lit ''null'')"
| "String_js (Bool b) = Inr (if b then lit ''true'' else lit ''false'')"
| "String_js (Num n) = Inr n"
| "String_js (Str s) = Inr s"
| "String_js (Arr vs) =
     (case elements_js vs of Inl e \<Rightarrow> Inl e | Inr xs \<Rightarrow> Inr (join_comma xs))"
| "String_js (Obj kvs) =
     (if map_of kvs (lit ''toString'') = None then Inr (lit ''[object Object]'')
      else Inl TypeError)"
| "elements_js [] = Inr []"
| "elements_js (v # vs) =
     (case (if v = Undefined \<or> v = Null then Inr [] else String_js v) of
        Inl e \<Rightarrow> Inl e
      | Inr x \<Rightarrow> (case elements_js vs of Inl e \<Rightarrow> Inl e | Inr xs \<Rightarrow> Inr (x # xs)))"

text \<open>
  \<open>data[key]\<close> for a string key that is neither an array index nor the name of a
  built-in property: a \<open>TypeError\<close> on \<open>null\<close> and \<open>undefined\<close>, the own property of
  an object, \<open>undefined\<close> otherwise.
\<close>

fun get_property :: "js_value \<Rightarrow> jsstring \<Rightarrow> js_error + js_value" where
  "get_property Undefined k = Inl TypeError"
| "get_property Null k = Inl TypeError"
| "get_property (Obj kvs) k = (case map_of kvs k of None \<Rightarrow> Inr Undefined | Some v \<Rightarrow> Inr v)"
| "get_property v k = Inr Undefined"

subsection \<open>btoa\<close>

definition b64_alphabet :: string where
  "b64_alphabet = ''ABCDEFGHIJKLMNOPQRSTUVWXYZabcdefghijklmnopqrstuvwxyz0123456789+/''"

definition b64_digit :: "nat \<Rightarrow> 16 word" where
  "b64_digit n = word_of_nat (of_char (b64_alphabet ! (n mod 64)))"

fun b64_bytes :: "nat list \<Rightarrow> jsstring" where
  "b64_bytes [] = []"
| "b64_bytes [a] =
     [b64_digit (a div 4), b64_digit ((a mod 4) * 16)] @ lit ''==''"
| "b64_bytes [a, b] =
     [b64_digit (a div 4), b64_digit ((a mod 4) * 16 + b div 16),
      b64_digit ((b mod 16) * 4)] @ lit ''=''"
| "b64_bytes (a # b # c # rest) =
     [b64_digit (a div 4), b64_digit ((a mod 4) * 16 + b div 16),
      b64_digit ((b mod 16) * 4 + c div 64), b64_digit (c mod 64)] @ b64_bytes rest"

text \<open>
  \<open>btoa(s)\<close>: the base64 text of the bytes of \<open>s\<close>; an \<open>InvalidCharacterError\<close> when a
  code unit of \<open>s\<close> is above 255.
\<close>

definition btoa :: "jsstring \<Rightarrow> js_error + jsstring" where
  "btoa s =
     (if list_all (\<lambda>c. c \<le> 255) s then Inr (b64_bytes (map unat s))
      else Inl InvalidCharacterError)"

subsection \<open>atob\<close>

definition ascii_whitespace :: "16 word \<Rightarrow> bool" where
  "ascii_whitespace c \<longleftrightarrow> c \<in> {0x09, 0x0A, 0x0C, 0x0D, 0x20}"

definition b64_value :: "16 word \<Rightarrow> nat option" where
  "b64_value c =
     (let n = unat c in
      if 0x41 \<le> n \<and> n \<le> 0x5A then Some (n - 0x41)
      else if 0x61 \<le> n \<and> n \<le> 0x7A then Some (n - 0x61 + 26)
      else if 0x30 \<le> n \<and> n \<le> 0x39 then Some (n - 0x30 + 52)
      else if n = 0x2B then Some 62
      else if n = 0x2F then Some 63
      else None)"

text \<open>One or two \<open>=\<close> at the end are dropped when the length is a multiple of four.\<close>

definition strip_padding :: "jsstring \<Rightarrow> jsstring" where
  "strip_padding d =
     (if length d mod 4 = 0 \<and> d \<noteq> [] \<and> last d = 0x3D then
        (if butlast d \<noteq> [] \<and> last (butlast d) = 0x3D then butlast (butlast d) else butlast d)
      else d)"

fun b64_decode :: "nat list \<Rightarrow> nat list" where
  "b64_decode (a # b # c # d # rest) =
     [a * 4 + b div 16, (b mod 16) * 16 + c div 4, (c mod 4) * 64 + d] @ b64_decode rest"
| "b64_decode [a, b, c] = [a * 4 + b div 16, (b mod 16) * 16 + c div 4]"
| "b64_decode [a, b] = [a * 4 + b div 16]"
| "b64_decode rest = []"

text \<open>
  \<open>atob(d)\<close>: ASCII whitespace is ignored and the padding dropped; an
  \<open>InvalidCharacterError\<close> when what is left has a length of one more than a multiple
  of four or holds a code unit outside the base64 alphabet; else the string of the
  decoded bytes.
\<close>

definition atob :: "jsstring \<Rightarrow> js_error + jsstring" where
  "atob d =
     (let d1 = strip_padding (filter (\<lambda>c. \<not> ascii_whitespace c) d)
      in if length d1 mod 4 = 1 \<or> \<not> list_all (\<lambda>c. b64_value c \<noteq> None) d1
         then Inl InvalidCharacterError
         else Inr (map word_of_nat (b64_decode (map (\<lambda>c. the (b64_value c)) d1))))"

subsection \<open>URLSearchParams\<close>

text \<open>The UTF-8 bytes of a string; a lone surrogate becomes U+FFFD.\<close>

fun utf8 :: "nat list \<Rightarrow> nat list" where
  "utf8 [] = []"
| "utf8 [c] =
     (if c < 0x80 then [c]
      else if c < 0x800 then [0xC0 + c div 64, 0x80 + c mod 64]
      else if 0xD800 \<le> c \<and> c < 0xE000 then [0xEF, 0xBF, 0xBD]
      else [0xE0 + c div 4096, 0x80 + (c div 64) mod 64, 0x80 + c mod 64])"
| "utf8 (c # d # ds) =
     (if c < 0x80 then c # utf8 (d # ds)
      else if c < 0x800 then [0xC0 + c div 64, 0x80 + c mod 64] @ utf8 (d # ds)
      else if 0xD800 \<le> c \<and> c < 0xDC00 \<and> 0xDC00 \<le> d \<and> d < 0xE000 then
        (let u = 0x10000 + (c - 0xD800) * 0x400 + (d - 0xDC00)
         in [0xF0 + u div 262144, 0x80 + (u div 4096) mod 64,
             0x80 + (u div 64) mod 64, 0x80 + u mod 64] @ utf8 ds)
      else if 0xD800 \<le> c \<and> c < 0xE000 then [0xEF, 0xBF, 0xBD] @ utf8 (d # ds)
      else [0xE0 + c div 4096, 0x80 + (c div 64) mod 64, 0x80 + c mod 64] @ utf8 (d # ds))"

definition hex_digit :: "nat \<Rightarrow> 16 word" where
  "hex_digit n = word_of_nat (of_char (''0123456789ABCDEF'' ! (n mod 16)))"

definition urlencode_byte :: "nat \<Rightarrow> jsstring" where
  "urlencode_byte b =
     (if (0x30 \<le> b \<and> b \<le> 0x39) \<or> (0x41 \<le> b \<and> b \<le> 0x5A) \<or> (0x61 \<le> b \<and> b \<le> 0x7A)
         \<or> b = 0x2A \<or> b = 0x2D \<or> b = 0x2E \<or> b = 0x5F
      then [word_of_nat b]
      else if b = 0x20 then lit ''+''
      else lit ''%'' @ [hex_digit (b div 16), hex_digit (b mod 16)])"

definition urlencode :: "jsstring \<Rightarrow> jsstring" where
  "urlencode s = concat (map urlencode_byte (utf8 (map unat s)))"

text \<open>\<open>new URLSearchParams(entries).toString()\<close>.\<close>

fun URLSearchParams_toString :: "(jsstring \<times> jsstring) list \<Rightarrow> jsstring" where
  "URLSearchParams_toString [] = []"
| "URLSearchParams_toString [(k, v)] = urlencode k @ lit ''='' @ urlencode v"
| "URLSearchParams_toString ((k, v) # kv # kvs) =
     urlencode k @ lit ''='' @ urlencode v @ lit ''&'' @ URLSearchParams_toString (kv # kvs)"

section \<open>The page, the objects the program creates, and its variables\<close>

datatype role = Assistant | System | User

definition role_str :: "role \<Rightarrow> jsstring" where
  "role_str r = (case r of Assistant \<Rightarrow> lit ''assistant'' | System \<Rightarrow> lit ''system''
                 | User \<Rightarrow> lit ''user'')"

text \<open>
  The messages of the socket, by their \<open>type\<close> field: \<open>user_message\<close> and
  \<open>assistant_message\<close> carry \<open>message.role\<close> and \<open>message.content\<close>, \<open>audio_output\<close>
  carries its base64 \<open>data\<close>; \<open>OtherMessage t\<close> is a message of any other type \<open>t\<close>.
\<close>

datatype message =
    UserMessage role jsstring
  | AssistantMessage role jsstring
  | AudioOutput jsstring
  | UserInterruption
  | OtherMessage jsstring

definition message_type :: "message \<Rightarrow> jsstring" where
  "message_type m =
     (case m of UserMessage r c \<Rightarrow> lit ''user_message''
      | AssistantMessage r c \<Rightarrow> lit ''assistant_message''
      | AudioOutput d \<Rightarrow> lit ''audio_output''
      | UserInterruption \<Rightarrow> lit ''user_interruption''
      | OtherMessage t \<Rightarrow> t)"

text \<open>
  A blob: its bytes, and the \<open>type\<close> option it was constructed with.
  \<open>base64ToBlob(base64, contentType)\<close> of the SDK decodes its first argument with
  \<open>atob\<close>, whose error it lets through, and makes a blob of the bytes.
\<close>

datatype blob = Blob "8 word list" jsstring

definition base64ToBlob :: "jsstring \<Rightarrow> jsstring \<Rightarrow> js_error + blob" where
  "base64ToBlob base64 contentType =
     (case atob base64 of
        Inl e \<Rightarrow> Inl e
      | Inr binaryString \<Rightarrow> Inr (Blob (map ucast binaryString) contentType))"

text \<open>A chunk of recorded audio: its bytes; \<open>data.size\<close> is their number.\<close>

type_synonym chunk = "8 word list"

datatype ready_state = CONNECTING | OPEN | CLOSING | CLOSED

record voice_client =
  auth_value :: jsstring
  readyState :: ready_state

text \<open>
  An audio element on which \<open>play()\<close> was called is \<open>Playing\<close> until \<open>pause()\<close> is
  called on it or its playback reaches the end; there it is \<open>Finished\<close>: its \<open>ended\<close>
  event is queued, and it is \<open>Ended\<close> once that event has been dispatched.
\<close>

datatype audio_status = Playing | Paused | Finished | Ended

record audio =
  audio_src :: blob
  audio_status :: audio_status

record media_stream =
  stream_id :: nat

datatype recorder_state = Inactive | Recording

record media_recorder =
  rec_stream :: media_stream
  rec_mimeType :: jsstring
  rec_timeslice :: nat
  rec_state :: recorder_state

record request =
  req_url :: jsstring
  req_method :: jsstring
  req_headers :: "(jsstring \<times> jsstring) list"
  req_body :: jsstring
  req_cache :: jsstring

text \<open>The calls the program makes to the browser and to the SDK, in the order made.\<close>

datatype action =
    GetAudioStream
  | Fetch request
  | ResJson
  | ConsoleError jsstring js_error
  | ConsoleLog jsstring
  | CreateConfig "jsstring option"
  | CreateClient jsstring
  | ClientConnect nat
  | ClientDisconnect nat
  | SendAudio nat chunk
  | AddClickListener

text \<open>
  Modelled from the spec: main.ts assigns and reads \<open>accessToken\<close>, \<open>client\<close>,
  \<open>isPlaying\<close>, \<open>currentAudio\<close>, \<open>audioStream\<close>, \<open>recorder\<close>, \<open>audioQueue\<close> and
  \<open>mimeType\<close>, and their declarations are not in the file; the spec calls them transient
  in-memory variables (a playback queue of audio blobs, a connection handle, a boolean
  playing flag). They are the first eight fields. An object handle is the index of the
  object in the list of the objects of its kind created so far; \<open>None\<close> is \<open>null\<close>
  (for \<open>accessToken\<close>: not assigned yet).

  The other fields are the page and the world the program acts on: the \<open>innerHTML\<close> of
  the paragraphs appended to the \<open>chat\<close> element (\<open>None\<close> when the page has no such
  element), whether the \<open>gif\<close> element has the click listener (\<open>None\<close> when the
  page has no such element), the clients, audio elements and recorders created so far,
  the number of \<open>captureAudio\<close> calls waiting for \<open>getAudioStream\<close>, the chunks whose
  \<open>arrayBuffer()\<close> is awaited, the errors no handler caught, and the calls made.
\<close>

record state =
  accessToken :: "jsstring option"
  client :: "nat option"
  isPlaying :: bool
  currentAudio :: "nat option"
  audioStream :: "media_stream option"
  recorder :: "nat option"
  audioQueue :: "blob list"
  mimeType :: jsstring
  chat :: "jsstring list option"
  gif :: "bool option"
  clients :: "voice_client list"
  audios :: "audio list"
  recorders :: "media_recorder list"
  pendingCapture :: nat
  pendingBuffers :: "chunk list"
  uncaught :: "js_error list"
  trace :: "action list"

definition call :: "action \<Rightarrow> state \<Rightarrow> state" where
  "call a s = s\<lparr>trace := trace s @ [a]\<rparr>"

definition throw :: "js_error \<Rightarrow> state \<Rightarrow> state" where
  "throw e s = s\<lparr>uncaught := uncaught s @ [e]\<rparr>"

section \<open>The functions of main.ts\<close>

datatype stream_outcome = StreamRejected js_error | StreamResolved media_stream

datatype json_outcome = JsonRejected js_error | JsonResolved js_value

datatype fetch_outcome = FetchRejected js_error | FetchResolved json_outcome

text \<open>
  An \<open>async\<close> function of the source returns the error it rejects with, if any, and the
  state it leaves.
\<close>

type_synonym completion = "js_error option \<times> state"

definition requestMicrophonePermission :: "stream_outcome \<Rightarrow> state \<Rightarrow> completion" where
  "requestMicrophonePermission mic s =
     (let s1 = call GetAudioStream s in
      case mic of
        StreamResolved st \<Rightarrow> (None, s1)
      | StreamRejected e \<Rightarrow>
          (None, call (ConsoleError (lit ''Failed to get microphone permission:'') e) s1))"

definition or_empty :: "jsstring option \<Rightarrow> jsstring" where
  "or_empty v = (case v of None \<Rightarrow> [] | Some x \<Rightarrow> x)"

definition token_request :: "jsstring \<Rightarrow> request" where
  "token_request encoded =
     \<lparr>req_url = lit ''https://api.hume.ai/oauth2-cc/token'',
      req_method = lit ''POST'',
      req_headers =
        [(lit ''Content-Type'', lit ''application/x-www-form-urlencoded''),
         (lit ''Authorization'', lit ''Basic '' @ encoded)],
      req_body = URLSearchParams_toString [(lit ''grant_type'', lit ''client_credentials'')],
      req_cache = lit ''no-cache''\<rparr>"

definition authenticate ::
  "jsstring option \<Rightarrow> jsstring option \<Rightarrow> fetch_outcome \<Rightarrow> state \<Rightarrow> completion" where
  "authenticate VITE_HUME_API_KEY VITE_HUME_CLIENT_SECRET res s =
     (let apiKey = or_empty VITE_HUME_API_KEY;
          clientSecret = or_empty VITE_HUME_CLIENT_SECRET;
          authString = apiKey @ lit '':'' @ clientSecret
      in case btoa authString of
           Inl e \<Rightarrow> (Some e, s)
         | Inr encoded \<Rightarrow>
            (let s1 = call (Fetch (token_request encoded)) s;
                 failed = (\<lambda>e t. (None, call (ConsoleError (lit ''Failed to authenticate:'') e) t))
             in case res of
                  FetchRejected e \<Rightarrow> failed e s1
                | FetchResolved js \<Rightarrow>
                   (let s2 = call ResJson s1
                    in case js of
                         JsonRejected e \<Rightarrow> failed e s2
                       | JsonResolved data \<Rightarrow>
                          (case get_property data (lit ''access_token'') of
                             Inl e \<Rightarrow> failed e s2
                           | Inr v \<Rightarrow>
                              (case String_js v of
                                 Inl e \<Rightarrow> failed e s2
                               | Inr token \<Rightarrow> (None, s2\<lparr>accessToken := Some token\<rparr>))))))"

text \<open>
  \<open>createConfig({auth: {type: 'accessToken', value}})\<close> of the SDK checks what it is
  given: it throws when \<open>value\<close> is not a string, as is the case while no access token
  has been stored.
\<close>

definition createConfig :: "jsstring option \<Rightarrow> js_error + jsstring" where
  "createConfig value = (case value of None \<Rightarrow> Inl ConfigError | Some token \<Rightarrow> Inr token)"

text \<open>
  \<open>connect\<close>: the config made from the access token, a new client with it, the three
  handlers (\<open>on_open\<close>, \<open>on_message\<close>, \<open>on_close\<close> below), and \<open>client.connect()\<close>.
  An error thrown by \<open>createConfig\<close> ends the function before the client is created. The
  other calls into the SDK (\<open>VoiceClient.create\<close>, \<open>client.on\<close>, \<open>client.connect\<close>)
  are taken to return.
\<close>

definition connect :: "state \<Rightarrow> completion" where
  "connect s =
     (let s0 = call (CreateConfig (accessToken s)) s
      in case createConfig (accessToken s) of
           Inl e \<Rightarrow> (Some e, s0)
         | Inr config \<Rightarrow>
            (let i = length (clients s0);
                 s1 = call (CreateClient config) s0;
                 s2 = s1\<lparr>clients := clients s1 @ [\<lparr>auth_value = config, readyState = CONNECTING\<rparr>],
                         client := Some i\<rparr>
             in (None, call (ClientConnect i) s2)))"

text \<open>
  A call of an \<open>async\<close> function whose promise nobody awaits: the error it rejects
  with, if any, is caught by no handler.
\<close>

definition unawaited :: "completion \<Rightarrow> state" where
  "unawaited c = (case c of (None, s) \<Rightarrow> s | (Some e, s) \<Rightarrow> throw e s)"

definition appendMessage :: "jsstring \<Rightarrow> role \<Rightarrow> jsstring \<Rightarrow> state \<Rightarrow> state" where
  "appendMessage timestamp r content s =
     (let innerHTML =
            lit ''<strong>['' @ timestamp @ lit ''] '' @ role_str r @ lit '':</strong> '' @ content
      in case chat s of
           None \<Rightarrow> s
         | Some children \<Rightarrow> s\<lparr>chat := Some (children @ [innerHTML])\<rparr>)"

definition playAudio :: "state \<Rightarrow> state" where
  "playAudio s =
     (if length (audioQueue s) > 0 \<and> \<not> isPlaying s then
        (let s1 = s\<lparr>isPlaying := True\<rparr>
         in case audioQueue s1 of
              [] \<Rightarrow> s1
            | audioBlob # rest \<Rightarrow>
                s1\<lparr>audioQueue := rest,
                   audios := audios s1 @ [\<lparr>audio_src = audioBlob, audio_status = Playing\<rparr>],
                   currentAudio := Some (length (audios s1))\<rparr>)
      else s)"

text \<open>The \<open>onended\<close> callback that \<open>playAudio\<close> gives to each audio element.\<close>

definition onended :: "state \<Rightarrow> state" where
  "onended s =
     (let s1 = s\<lparr>isPlaying := False\<rparr>
      in if length (audioQueue s1) \<noteq> 0 then playAudio s1 else s1)"

text \<open>
  \<open>audio.pause()\<close>: an element that is playing is paused, any other is left as it is (the
  \<open>ended\<close> event of an element that has reached its end stays queued).
\<close>

definition pause :: "nat \<Rightarrow> state \<Rightarrow> state" where
  "pause a s =
     (if a < length (audios s) \<and> audio_status (audios s ! a) = Playing
      then s\<lparr>audios := (audios s)[a := (audios s ! a)\<lparr>audio_status := Paused\<rparr>]\<rparr>
      else s)"

definition stopAudio :: "state \<Rightarrow> state" where
  "stopAudio s =
     (let s1 = (case currentAudio s of None \<Rightarrow> s | Some a \<Rightarrow> pause a s)
      in s1\<lparr>currentAudio := None, isPlaying := False, audioQueue := []\<rparr>)"

text \<open>
  The handler of \<open>client.on('message', ...)\<close>; \<open>now\<close> is the time \<open>new Date()\<close> reads.
  An error thrown by \<open>base64ToBlob\<close> ends the handler before anything is pushed, and no
  handler catches it.
\<close>

fun on_message :: "jsstring \<Rightarrow> message \<Rightarrow> state \<Rightarrow> state" where
  "on_message now (UserMessage r content) s = appendMessage now r content s"
| "on_message now (AssistantMessage r content) s = appendMessage now r content s"
| "on_message now (AudioOutput audioOutput) s =
     (case base64ToBlob audioOutput (mimeType s) of
        Inl e \<Rightarrow> throw e s
      | Inr blob \<Rightarrow>
         (let s1 = s\<lparr>audioQueue := audioQueue s @ [blob]\<rparr>
          in if length (audioQueue s1) \<le> 1 then playAudio s1 else s1))"
| "on_message now UserInterruption s = stopAudio s"
| "on_message now (OtherMessage t) s = s"

text \<open>
  \<open>captureAudio\<close> up to its \<open>await getAudioStream()\<close>, and from there on. The outcomes of
  \<open>checkForAudioTracks\<close> and of \<open>new MediaRecorder\<close> (the error each throws, if any) are
  given with the stream.
\<close>

definition captureAudio_begin :: "state \<Rightarrow> state" where
  "captureAudio_begin s = (call GetAudioStream s)\<lparr>pendingCapture := pendingCapture s + 1\<rparr>"

definition captureAudio_resume ::
  "stream_outcome \<Rightarrow> js_error option \<Rightarrow> js_error option \<Rightarrow> state \<Rightarrow> state" where
  "captureAudio_resume mic tracks_error recorder_error s =
     (let s0 = s\<lparr>pendingCapture := pendingCapture s - 1\<rparr>
      in case mic of
           StreamRejected e \<Rightarrow> throw e s0
         | StreamResolved st \<Rightarrow>
            (let s1 = s0\<lparr>audioStream := Some st\<rparr>
             in case tracks_error of
                  Some e \<Rightarrow> throw e s1
                | None \<Rightarrow>
                   (case recorder_error of
                      Some e \<Rightarrow> throw e s1
                    | None \<Rightarrow>
                        s1\<lparr>recorders := recorders s1 @
                              [\<lparr>rec_stream = st, rec_mimeType = mimeType s1,
                                rec_timeslice = 100, rec_state = Recording\<rparr>],
                           recorder := Some (length (recorders s1))\<rparr>)))"

text \<open>The handler of \<open>client.on('open', ...)\<close>.\<close>

definition on_open :: "state \<Rightarrow> state" where
  "on_open s = captureAudio_begin (call (ConsoleLog (lit ''Web socket connection opened'')) s)"

text \<open>The handler of \<open>client.on('close', ...)\<close>.\<close>

definition on_close :: "state \<Rightarrow> state" where
  "on_close s = call (ConsoleLog (lit ''Web socket connection closed'')) s"

text \<open>\<open>client?.readyState === WebSocket.OPEN\<close>.\<close>

definition client_is_open :: "state \<Rightarrow> bool" where
  "client_is_open s =
     (case client s of
        None \<Rightarrow> False
      | Some i \<Rightarrow> i < length (clients s) \<and> readyState (clients s ! i) = OPEN)"

text \<open>
  \<open>recorder.ondataavailable\<close> up to its \<open>await data.arrayBuffer()\<close>, and from there on
  for the \<open>k\<close>-th of the awaited buffers.
\<close>

definition ondataavailable :: "chunk \<Rightarrow> state \<Rightarrow> state" where
  "ondataavailable data s =
     (if length data > 0 \<and> client_is_open s
      then s\<lparr>pendingBuffers := pendingBuffers s @ [data]\<rparr>
      else s)"

definition ondataavailable_resume :: "nat \<Rightarrow> state \<Rightarrow> state" where
  "ondataavailable_resume k s =
     (if k < length (pendingBuffers s) then
        (let buffer = pendingBuffers s ! k;
             s1 = s\<lparr>pendingBuffers := take k (pendingBuffers s) @ drop (Suc k) (pendingBuffers s)\<rparr>
         in case client s1 of None \<Rightarrow> s1 | Some i \<Rightarrow> call (SendAudio i buffer) s1)
      else s)"

text \<open>\<open>recorder.stop()\<close> and \<open>client.disconnect()\<close>, which closes the socket.\<close>

definition recorder_stop :: "nat \<Rightarrow> state \<Rightarrow> state" where
  "recorder_stop r s =
     (if r < length (recorders s)
      then s\<lparr>recorders := (recorders s)[r := (recorders s ! r)\<lparr>rec_state := Inactive\<rparr>]\<rparr>
      else s)"

definition client_disconnect :: "nat \<Rightarrow> state \<Rightarrow> state" where
  "client_disconnect i s =
     (let s1 = call (ClientDisconnect i) s
      in if i < length (clients s1) \<and> readyState (clients s1 ! i) \<in> {CONNECTING, OPEN}
         then s1\<lparr>clients := (clients s1)[i := (clients s1 ! i)\<lparr>readyState := CLOSING\<rparr>]\<rparr>
         else s1)"

definition disconnect :: "jsstring \<Rightarrow> state \<Rightarrow> state" where
  "disconnect now s =
     (let s1 = stopAudio s;
          s2 = (case recorder s1 of None \<Rightarrow> s1 | Some r \<Rightarrow> recorder_stop r s1);
          s3 = s2\<lparr>recorder := None, audioStream := None\<rparr>;
          s4 = (case client s3 of None \<Rightarrow> s3 | Some i \<Rightarrow> client_disconnect i s3)
      in appendMessage now System (lit ''Conversation ended.'') s4)"

text \<open>The click listener of the \<open>gif\<close> element; it does not await \<open>connect()\<close>.\<close>

definition gif_click :: "jsstring \<Rightarrow> state \<Rightarrow> state" where
  "gif_click now s =
     (case client s of
        None \<Rightarrow> s
      | Some i \<Rightarrow> if client_is_open s then disconnect now s else unawaited (connect s))"

text \<open>\<open>gif?.addEventListener('click', ...)\<close>.\<close>

definition addClickListener :: "state \<Rightarrow> state" where
  "addClickListener s =
     (case gif s of None \<Rightarrow> s | Some l \<Rightarrow> call AddClickListener (s\<lparr>gif := Some True\<rparr>))"

text \<open>
  The body of the script: what the environment answers (the microphone prompt, the two
  environment variables, the token endpoint) and the state of the freshly loaded page.
  Each of the three functions is awaited; an error that one of them rejects with ends
  the script there, caught by no handler.
\<close>

record startup_env =
  env_mic :: stream_outcome
  env_VITE_HUME_API_KEY :: "jsstring option"
  env_VITE_HUME_CLIENT_SECRET :: "jsstring option"
  env_fetch :: fetch_outcome

definition startup :: "startup_env \<Rightarrow> state \<Rightarrow> state" where
  "startup env s =
     (case requestMicrophonePermission (env_mic env) s of
        (Some e, s1) \<Rightarrow> throw e s1
      | (None, s1) \<Rightarrow>
         (case authenticate (env_VITE_HUME_API_KEY env) (env_VITE_HUME_CLIENT_SECRET env)
                 (env_fetch env) s1 of
            (Some e, s2) \<Rightarrow> throw e s2
          | (None, s2) \<Rightarrow>
             (case connect s2 of
                (Some e, s3) \<Rightarrow> throw e s3
              | (None, s3) \<Rightarrow> addClickListener s3)))"

section \<open>Events\<close>

text \<open>
  What happens after the script has run: a click on the gif, the socket of client \<open>i\<close>
  opening, delivering a message or closing, an awaited microphone stream, a chunk from a
  recorder, an awaited array buffer, the playback of an audio element reaching its end
  (which queues its \<open>ended\<close> event and runs no code of the program), and the dispatch of
  that \<open>ended\<close> event.
\<close>

datatype event =
    Click jsstring
  | SocketOpen nat
  | SocketMessage nat jsstring message
  | SocketClose nat
  | StreamReady stream_outcome "js_error option" "js_error option"
  | DataAvailable nat chunk
  | BufferReady nat
  | PlaybackAtEnd nat
  | AudioEnded nat

definition set_readyState :: "nat \<Rightarrow> ready_state \<Rightarrow> state \<Rightarrow> state" where
  "set_readyState i r s = s\<lparr>clients := (clients s)[i := (clients s ! i)\<lparr>readyState := r\<rparr>]\<rparr>"

definition set_status :: "nat \<Rightarrow> audio_status \<Rightarrow> state \<Rightarrow> state" where
  "set_status a st s = s\<lparr>audios := (audios s)[a := (audios s ! a)\<lparr>audio_status := st\<rparr>]\<rparr>"

text \<open>
  An event can occur only where its source exists and is in the state for it: a socket
  opens while connecting and delivers messages while open, playback reaches the end only
  while the element is playing, and \<open>ended\<close> is dispatched only after that.
\<close>

fun enabled :: "state \<Rightarrow> event \<Rightarrow> bool" where
  "enabled s (Click now) = (gif s \<noteq> None)"
| "enabled s (SocketOpen i) = (i < length (clients s) \<and> readyState (clients s ! i) = CONNECTING)"
| "enabled s (SocketMessage i now m) = (i < length (clients s) \<and> readyState (clients s ! i) = OPEN)"
| "enabled s (SocketClose i) = (i < length (clients s) \<and> readyState (clients s ! i) \<noteq> CLOSED)"
| "enabled s (StreamReady mic te re) = (pendingCapture s > 0)"
| "enabled s (DataAvailable r data) = (r < length (recorders s))"
| "enabled s (BufferReady k) = (k < length (pendingBuffers s))"
| "enabled s (PlaybackAtEnd a) = (a < length (audios s) \<and> audio_status (audios s ! a) = Playing)"
| "enabled s (AudioEnded a) = (a < length (audios s) \<and> audio_status (audios s ! a) = Finished)"

fun step :: "event \<Rightarrow> state \<Rightarrow> state" where
  "step (Click now) s = (if gif s = Some True then gif_click now s else s)"
| "step (SocketOpen i) s = on_open (set_readyState i OPEN s)"
| "step (SocketMessage i now m) s = on_message now m s"
| "step (SocketClose i) s = on_close (set_readyState i CLOSED s)"
| "step (StreamReady mic te re) s = captureAudio_resume mic te re s"
| "step (DataAvailable r data) s = ondataavailable data s"
| "step (BufferReady k) s = ondataavailable_resume k s"
| "step (PlaybackAtEnd a) s = set_status a Finished s"
| "step (AudioEnded a) s = onended (set_status a Ended s)"

fun run :: "event list \<Rightarrow> state \<Rightarrow> state option" where
  "run [] s = Some s"
| "run (e # es) s = (if enabled s e then run es (step e s) else None)"

text \<open>
  Modelled from the spec: the initial values of the variables come with their
  declarations, which are not in main.ts. A freshly loaded page, before the script runs,
  has nothing created, no handle set, the queue empty and nothing playing (the spec's
  transient in-memory variables, holding nothing yet); the mime type, which the script
  never assigns, is a parameter.
\<close>

definition fresh :: "jsstring \<Rightarrow> bool \<Rightarrow> bool \<Rightarrow> state" where
  "fresh mt has_chat has_gif =
     \<lparr>accessToken = None, client = None, isPlaying = False, currentAudio = None,
      audioStream = None, recorder = None, audioQueue = [], mimeType = mt,
      chat = (if has_chat then Some [] else None),
      gif = (if has_gif then Some False else None),
      clients = [], audios = [], recorders = [], pendingCapture = 0, pendingBuffers = [],
      uncaught = [], trace = []\<rparr>"

section \<open>Notions used in the statements\<close>

text \<open>The playback side of the state: the audio elements, and the three playback variables.\<close>

definition playback :: "state \<Rightarrow> audio list \<times> nat option \<times> bool \<times> blob list" where
  "playback s = (audios s, currentAudio s, isPlaying s, audioQueue s)"

text \<open>The audio elements in playback.\<close>

definition playing :: "state \<Rightarrow> nat list" where
  "playing s = filter (\<lambda>a. audio_status (audios s ! a) = Playing) [0..<length (audios s)]"

text \<open>The buffers given to \<open>sendAudio\<close> so far.\<close>

fun sendAudio_calls :: "action list \<Rightarrow> chunk list" where
  "sendAudio_calls [] = []"
| "sendAudio_calls (SendAudio i buffer # as) = buffer # sendAudio_calls as"
| "sendAudio_calls (a # as) = sendAudio_calls as"

definition sent :: "state \<Rightarrow> chunk list" where
  "sent s = sendAudio_calls (trace s)"

text \<open>
  The chunks that the events \<open>es\<close>, delivered from state \<open>s\<close> on, hand to
  \<open>ondataavailable\<close> at a moment when the chunk is not empty and the client is open.
\<close>

fun passed_guard :: "event list \<Rightarrow> state \<Rightarrow> chunk list" where
  "passed_guard [] s = []"
| "passed_guard (DataAvailable r data # es) s =
     (if length data > 0 \<and> client_is_open s then [data] else []) @
     passed_guard es (step (DataAvailable r data) s)"
| "passed_guard (e # es) s = passed_guard es (step e s)"

fun is_ended :: "event \<Rightarrow> bool" where
  "is_ended (AudioEnded a) = True"
| "is_ended _ = False"

fun is_at_end :: "event \<Rightarrow> bool" where
  "is_at_end (PlaybackAtEnd a) = True"
| "is_at_end _ = False"

fun is_audio_output :: "event \<Rightarrow> bool" where
  "is_audio_output (SocketMessage i now (AudioOutput d)) = True"
| "is_audio_output _ = False"

text \<open>
  The events whose handler calls \<open>stopAudio\<close>: a \<open>user_interruption\<close> message, and a click
  that disconnects.
\<close>

fun calls_stopAudio :: "state \<Rightarrow> event \<Rightarrow> bool" where
  "calls_stopAudio s (SocketMessage i now m) = (m = UserInterruption)"
| "calls_stopAudio s (Click now) = (gif s = Some True \<and> client_is_open s)"
| "calls_stopAudio s _ = False"


text \<open>
  Every element that is playing, or whose \<open>ended\<close> event is still queued, is the newest
  one, is the current one, and has the playing flag set.
\<close>

definition playback_inv :: "state \<Rightarrow> bool" where
  "playback_inv s \<longleftrightarrow>
     (\<forall>a<length (audios s). audio_status (audios s ! a) \<in> {Playing, Finished} \<longrightarrow>
        Suc a = length (audios s) \<and> currentAudio s = Some a \<and> isPlaying s)"

text \<open>
  No event of \<open>es\<close>, delivered from \<open>s\<close> on, calls \<open>stopAudio\<close> while an \<open>ended\<close> event
  is queued.
\<close>

fun no_stop_before_ended :: "event list \<Rightarrow> state \<Rightarrow> bool" where
  "no_stop_before_ended [] s = True"
| "no_stop_before_ended (e # es) s =
     (\<not> (calls_stopAudio s e \<and> list_ex (\<lambda>x. audio_status x = Finished) (audios s))
      \<and> no_stop_before_ended es (step e s))"

text \<open>The four steps of the script, as they show in the calls made.\<close>

datatype orchestration = MicrophoneStep | TokenStep | ConnectStep | WireStep

fun steps :: "action list \<Rightarrow> orchestration list" where
  "steps [] = []"
| "steps (GetAudioStream # as) = MicrophoneStep # steps as"
| "steps (Fetch req # as) = TokenStep # steps as"
| "steps (ClientConnect i # as) = ConnectStep # steps as"
| "steps (AddClickListener # as) = WireStep # steps as"
| "steps (a # as) = steps as"

text \<open>What the two functions log, and the token that \<open>authenticate\<close> leaves.\<close>

definition mic_log :: "stream_outcome \<Rightarrow> action list" where
  "mic_log mic =
     (case mic of
        StreamRejected e \<Rightarrow> [ConsoleError (lit ''Failed to get microphone permission:'') e]
      | StreamResolved st \<Rightarrow> [])"

fun token_outcome :: "fetch_outcome \<Rightarrow> js_error + jsstring" where
  "token_outcome (FetchRejected e) = Inl e"
| "token_outcome (FetchResolved (JsonRejected e)) = Inl e"
| "token_outcome (FetchResolved (JsonResolved data)) =
     (case get_property data (lit ''access_token'') of Inl e \<Rightarrow> Inl e | Inr v \<Rightarrow> String_js v)"

fun token_log :: "fetch_outcome \<Rightarrow> action list" where
  "token_log (FetchRejected e) = [ConsoleError (lit ''Failed to authenticate:'') e]"
| "token_log res =
     ResJson # (case token_outcome res of
                  Inl e \<Rightarrow> [ConsoleError (lit ''Failed to authenticate:'') e]
                | Inr v \<Rightarrow> [])"

definition token_after :: "fetch_outcome \<Rightarrow> jsstring option \<Rightarrow> jsstring option" where
  "token_after res old = (case token_outcome res of Inl e \<Rightarrow> old | Inr token \<Rightarrow> Some token)"


text \<open>
  State \<open>t\<close> differs from \<open>s\<close> at most in the playback queue, the connection handle and
  the playing flag, as far as the variables of the program go.
\<close>

definition differs_in_three_only :: "state \<Rightarrow> state \<Rightarrow> bool" where
  "differs_in_three_only s t \<longleftrightarrow>
     accessToken t = accessToken s \<and> currentAudio t = currentAudio s
     \<and> audioStream t = audioStream s \<and> recorder t = recorder s \<and> mimeType t = mimeType s"

section \<open>An example session\<close>

definition example_env :: startup_env where
  "example_env =
     \<lparr>env_mic = StreamResolved \<lparr>stream_id = 0\<rparr>,
      env_VITE_HUME_API_KEY = Some (lit ''key''),
      env_VITE_HUME_CLIENT_SECRET = Some (lit ''secret''),
      env_fetch = FetchResolved (JsonResolved (Obj [(lit ''access_token'', Str (lit ''tok''))]))\<rparr>"


definition example_page :: state where
  "example_page = fresh (lit ''audio/webm'') True True"

definition example_started :: state where
  "example_started = startup example_env example_page"

definition audio_A :: event where
  "audio_A = SocketMessage 0 (lit ''10:00:00'') (AudioOutput (lit ''QQ==''))"

definition audio_B :: event where
  "audio_B = SocketMessage 0 (lit ''10:00:01'') (AudioOutput (lit ''Qg==''))"

definition audio_C :: event where
  "audio_C = SocketMessage 0 (lit ''10:00:09'') (AudioOutput (lit ''Qw==''))"

definition interruption :: event where
  "interruption = SocketMessage 0 (lit ''10:00:02'') UserInterruption"

definition example_chunk :: chunk where
  "example_chunk = [1, 2, 3]"

definition state_after :: "event list \<Rightarrow> state" where
  "state_after es = foldl (\<lambda>s e. step e s) example_started es"

text \<open>The socket opens and the recorder starts.\<close>

definition example_recording :: "event list" where
  "example_recording =
     [SocketOpen 0, StreamReady (StreamResolved \<lparr>stream_id = 1\<rparr>) None None]"

text \<open>
  Two blobs arrive and are played one after the other, a chunk of microphone audio is
  sent meanwhile, and the page is idle again.
\<close>

definition example_session :: "event list" where
  "example_session =
     example_recording @
     [audio_A, audio_B, DataAvailable 0 example_chunk, PlaybackAtEnd 0, AudioEnded 0, BufferReady 0,
      PlaybackAtEnd 1, AudioEnded 1]"

text \<open>
  The first blob reaches its end; before its \<open>ended\<close> event is dispatched, an
  interruption and the next blob are handled; a third blob follows the \<open>ended\<close> event.
\<close>

definition example_stale :: "event list" where
  "example_stale =
     example_recording @ [audio_A, PlaybackAtEnd 0, interruption, audio_B, AudioEnded 0]"

definition example_race :: "event list" where
  "example_race = example_stale @ [audio_C]"

section \<open>What each function leaves unchanged\<close>

lemma call_frame [simp]:
  "trace (call a s) = trace s @ [a]"
  "pendingBuffers (call a s) = pendingBuffers s"
  "client (call a s) = client s"
  "clients (call a s) = clients s"
  "mimeType (call a s) = mimeType s"
  "gif (call a s) = gif s"
  "playback (call a s) = playback s"
  by (simp_all add: call_def playback_def)

lemma throw_frame [simp]:
  "trace (throw e s) = trace s"
  "pendingBuffers (throw e s) = pendingBuffers s"
  "client (throw e s) = client s"
  "clients (throw e s) = clients s"
  "mimeType (throw e s) = mimeType s"
  "gif (throw e s) = gif s"
  "chat (throw e s) = chat s"
  "uncaught (throw e s) = uncaught s @ [e]"
  "playback (throw e s) = playback s"
  by (simp_all add: throw_def playback_def)

lemma unawaited_frame [simp]:
  "trace (unawaited c) = trace (snd c)"
  "pendingBuffers (unawaited c) = pendingBuffers (snd c)"
  "client (unawaited c) = client (snd c)"
  "clients (unawaited c) = clients (snd c)"
  "mimeType (unawaited c) = mimeType (snd c)"
  "gif (unawaited c) = gif (snd c)"
  "playback (unawaited c) = playback (snd c)"
  by (simp_all add: unawaited_def split: prod.splits option.splits)

lemma appendMessage_frame [simp]:
  "trace (appendMessage now r c s) = trace s"
  "pendingBuffers (appendMessage now r c s) = pendingBuffers s"
  "client (appendMessage now r c s) = client s"
  "clients (appendMessage now r c s) = clients s"
  "mimeType (appendMessage now r c s) = mimeType s"
  "recorder (appendMessage now r c s) = recorder s"
  "audioStream (appendMessage now r c s) = audioStream s"
  "recorders (appendMessage now r c s) = recorders s"
  "playback (appendMessage now r c s) = playback s"
  by (simp_all add: appendMessage_def playback_def split: option.splits)

lemma connect_frame [simp]:
  "fst (connect s) = (case accessToken s of None \<Rightarrow> Some ConfigError | Some token \<Rightarrow> None)"
  "trace (snd (connect s)) =
     trace s @ CreateConfig (accessToken s) #
       (case accessToken s of
          None \<Rightarrow> []
        | Some token \<Rightarrow> [CreateClient token, ClientConnect (length (clients s))])"
  "pendingBuffers (snd (connect s)) = pendingBuffers s"
  "client (snd (connect s)) =
     (case accessToken s of None \<Rightarrow> client s | Some token \<Rightarrow> Some (length (clients s)))"
  "clients (snd (connect s)) =
     clients s @ (case accessToken s of
                    None \<Rightarrow> []
                  | Some token \<Rightarrow> [\<lparr>auth_value = token, readyState = CONNECTING\<rparr>])"
  "mimeType (snd (connect s)) = mimeType s"
  "gif (snd (connect s)) = gif s"
  "uncaught (snd (connect s)) = uncaught s"
  "playback (snd (connect s)) = playback s"
  by (simp_all add: connect_def createConfig_def Let_def playback_def call_def
      split: option.splits)

lemma playAudio_frame [simp]:
  "trace (playAudio s) = trace s"
  "pendingBuffers (playAudio s) = pendingBuffers s"
  "client (playAudio s) = client s"
  "clients (playAudio s) = clients s"
  "mimeType (playAudio s) = mimeType s"
  "chat (playAudio s) = chat s"
  by (simp_all add: playAudio_def Let_def split: list.splits)

lemma onended_frame [simp]:
  "trace (onended s) = trace s"
  "pendingBuffers (onended s) = pendingBuffers s"
  "client (onended s) = client s"
  "clients (onended s) = clients s"
  "mimeType (onended s) = mimeType s"
  by (simp_all add: onended_def Let_def)

lemma pause_frame [simp]:
  "trace (pause a s) = trace s"
  "pendingBuffers (pause a s) = pendingBuffers s"
  "client (pause a s) = client s"
  "clients (pause a s) = clients s"
  "mimeType (pause a s) = mimeType s"
  "recorder (pause a s) = recorder s"
  "recorders (pause a s) = recorders s"
  "chat (pause a s) = chat s"
  by (simp_all add: pause_def)

lemma stopAudio_frame [simp]:
  "trace (stopAudio s) = trace s"
  "pendingBuffers (stopAudio s) = pendingBuffers s"
  "client (stopAudio s) = client s"
  "clients (stopAudio s) = clients s"
  "mimeType (stopAudio s) = mimeType s"
  "recorder (stopAudio s) = recorder s"
  "recorders (stopAudio s) = recorders s"
  "chat (stopAudio s) = chat s"
  by (simp_all add: stopAudio_def Let_def split: option.splits)

lemma on_message_frame [simp]:
  "trace (on_message now m s) = trace s"
  "pendingBuffers (on_message now m s) = pendingBuffers s"
  "client (on_message now m s) = client s"
  "clients (on_message now m s) = clients s"
  "mimeType (on_message now m s) = mimeType s"
  by (cases m; simp add: Let_def split: sum.splits)+

lemma captureAudio_begin_frame [simp]:
  "trace (captureAudio_begin s) = trace s @ [GetAudioStream]"
  "pendingBuffers (captureAudio_begin s) = pendingBuffers s"
  "client (captureAudio_begin s) = client s"
  "clients (captureAudio_begin s) = clients s"
  "mimeType (captureAudio_begin s) = mimeType s"
  "playback (captureAudio_begin s) = playback s"
  by (simp_all add: captureAudio_begin_def playback_def call_def)

lemma captureAudio_resume_frame [simp]:
  "trace (captureAudio_resume mic te re s) = trace s"
  "pendingBuffers (captureAudio_resume mic te re s) = pendingBuffers s"
  "client (captureAudio_resume mic te re s) = client s"
  "clients (captureAudio_resume mic te re s) = clients s"
  "mimeType (captureAudio_resume mic te re s) = mimeType s"
  "playback (captureAudio_resume mic te re s) = playback s"
  by (simp_all add: captureAudio_resume_def Let_def playback_def throw_def
      split: stream_outcome.splits option.splits)

lemma on_open_frame [simp]:
  "trace (on_open s) = trace s @ [ConsoleLog (lit ''Web socket connection opened''), GetAudioStream]"
  "pendingBuffers (on_open s) = pendingBuffers s"
  "client (on_open s) = client s"
  "clients (on_open s) = clients s"
  "mimeType (on_open s) = mimeType s"
  "playback (on_open s) = playback s"
  by (simp_all add: on_open_def)

lemma on_close_frame [simp]:
  "trace (on_close s) = trace s @ [ConsoleLog (lit ''Web socket connection closed'')]"
  "pendingBuffers (on_close s) = pendingBuffers s"
  "client (on_close s) = client s"
  "clients (on_close s) = clients s"
  "mimeType (on_close s) = mimeType s"
  "playback (on_close s) = playback s"
  by (simp_all add: on_close_def)

lemma ondataavailable_frame [simp]:
  "trace (ondataavailable d s) = trace s"
  "pendingBuffers (ondataavailable d s) =
     pendingBuffers s @ (if length d > 0 \<and> client_is_open s then [d] else [])"
  "client (ondataavailable d s) = client s"
  "clients (ondataavailable d s) = clients s"
  "mimeType (ondataavailable d s) = mimeType s"
  "playback (ondataavailable d s) = playback s"
  by (simp_all add: ondataavailable_def playback_def)

lemma ondataavailable_resume_frame [simp]:
  "trace (ondataavailable_resume k s) =
     trace s @ (if k < length (pendingBuffers s)
                then (case client s of None \<Rightarrow> [] | Some i \<Rightarrow> [SendAudio i (pendingBuffers s ! k)])
                else [])"
  "pendingBuffers (ondataavailable_resume k s) =
     (if k < length (pendingBuffers s)
      then take k (pendingBuffers s) @ drop (Suc k) (pendingBuffers s) else pendingBuffers s)"
  "client (ondataavailable_resume k s) = client s"
  "clients (ondataavailable_resume k s) = clients s"
  "mimeType (ondataavailable_resume k s) = mimeType s"
  "playback (ondataavailable_resume k s) = playback s"
  by (simp_all add: ondataavailable_resume_def Let_def playback_def call_def split: option.splits)

lemma recorder_stop_frame [simp]:
  "trace (recorder_stop r s) = trace s"
  "pendingBuffers (recorder_stop r s) = pendingBuffers s"
  "client (recorder_stop r s) = client s"
  "clients (recorder_stop r s) = clients s"
  "mimeType (recorder_stop r s) = mimeType s"
  "playback (recorder_stop r s) = playback s"
  by (simp_all add: recorder_stop_def playback_def)

lemma client_disconnect_frame [simp]:
  "trace (client_disconnect i s) = trace s @ [ClientDisconnect i]"
  "pendingBuffers (client_disconnect i s) = pendingBuffers s"
  "client (client_disconnect i s) = client s"
  "mimeType (client_disconnect i s) = mimeType s"
  "recorder (client_disconnect i s) = recorder s"
  "audioStream (client_disconnect i s) = audioStream s"
  "recorders (client_disconnect i s) = recorders s"
  "playback (client_disconnect i s) = playback s"
  by (simp_all add: client_disconnect_def Let_def playback_def call_def)

lemma clients_client_disconnect:
  "clients (client_disconnect i s) =
     (if i < length (clients s) \<and> readyState (clients s ! i) \<in> {CONNECTING, OPEN}
      then (clients s)[i := (clients s ! i)\<lparr>readyState := CLOSING\<rparr>] else clients s)"
  by (auto simp: client_disconnect_def call_def Let_def)

lemma handles_frame [simp]:
  "playback (s\<lparr>recorder := x, audioStream := y\<rparr>) = playback s"
  by (simp add: playback_def)

lemma disconnect_frame [simp]:
  "trace (disconnect now s) =
     trace s @ (case client s of None \<Rightarrow> [] | Some i \<Rightarrow> [ClientDisconnect i])"
  "pendingBuffers (disconnect now s) = pendingBuffers s"
  "client (disconnect now s) = client s"
  "mimeType (disconnect now s) = mimeType s"
  by (simp_all add: disconnect_def Let_def split: option.splits)

lemma gif_click_frame [simp]:
  "pendingBuffers (gif_click now s) = pendingBuffers s"
  "mimeType (gif_click now s) = mimeType s"
  by (simp_all add: gif_click_def split: option.splits)

lemma addClickListener_frame [simp]:
  "trace (addClickListener s) = trace s @ (if gif s = None then [] else [AddClickListener])"
  "pendingBuffers (addClickListener s) = pendingBuffers s"
  "client (addClickListener s) = client s"
  "clients (addClickListener s) = clients s"
  "mimeType (addClickListener s) = mimeType s"
  "uncaught (addClickListener s) = uncaught s"
  "gif (addClickListener s) = map_option (\<lambda>l. True) (gif s)"
  by (simp_all add: addClickListener_def call_def split: option.splits)

lemma set_readyState_frame [simp]:
  "trace (set_readyState i r s) = trace s"
  "pendingBuffers (set_readyState i r s) = pendingBuffers s"
  "client (set_readyState i r s) = client s"
  "mimeType (set_readyState i r s) = mimeType s"
  "playback (set_readyState i r s) = playback s"
  by (simp_all add: set_readyState_def playback_def)

lemma set_status_frame [simp]:
  "trace (set_status a st s) = trace s"
  "pendingBuffers (set_status a st s) = pendingBuffers s"
  "client (set_status a st s) = client s"
  "clients (set_status a st s) = clients s"
  "mimeType (set_status a st s) = mimeType s"
  by (simp_all add: set_status_def)

lemma step_mimeType: "mimeType (step e s) = mimeType s"
  by (cases e) simp_all

section \<open>The playback side of each handler\<close>

lemma playback_D:
  "playback t = playback s \<Longrightarrow>
     audios t = audios s \<and> currentAudio t = currentAudio s \<and> isPlaying t = isPlaying s
     \<and> audioQueue t = audioQueue s"
  by (simp add: playback_def)

lemma audios_stopAudio:
  "audios (stopAudio s) = (case currentAudio s of None \<Rightarrow> audios s | Some c \<Rightarrow> audios (pause c s))"
  by (simp add: stopAudio_def Let_def split: option.splits)

lemma playback_stopAudio:
  "playback (stopAudio s) =
     (case currentAudio s of None \<Rightarrow> audios s | Some a \<Rightarrow> audios (pause a s), None, False, [])"
  by (simp add: playback_def stopAudio_def Let_def split: option.splits)

lemma playback_playAudio:
  "playback (playAudio s) =
     (if audioQueue s \<noteq> [] \<and> \<not> isPlaying s
      then (audios s @ [\<lparr>audio_src = hd (audioQueue s), audio_status = Playing\<rparr>],
            Some (length (audios s)), True, tl (audioQueue s))
      else playback s)"
  by (cases "audioQueue s") (simp_all add: playback_def playAudio_def Let_def)


lemma playback_disconnect: "playback (disconnect now s) = playback (stopAudio s)"
  by (simp add: disconnect_def Let_def split: option.splits)

lemma playback_gif_click:
  "playback (gif_click now s) =
     (if client_is_open s then playback (stopAudio s) else playback s)"
  by (simp add: gif_click_def playback_disconnect client_is_open_def split: option.splits)

lemma playback_set_status:
  "playback (set_status a st s) =
     ((audios s)[a := (audios s ! a)\<lparr>audio_status := st\<rparr>], currentAudio s, isPlaying s,
      audioQueue s)"
  by (simp add: playback_def set_status_def)

lemma audio_output_failed:
  "base64ToBlob d (mimeType s) = Inl e \<Longrightarrow> on_message now (AudioOutput d) s = throw e s"
  by simp

lemma audio_output_step:
  "base64ToBlob d (mimeType s) = Inr b \<Longrightarrow>
   playback (step (SocketMessage i now (AudioOutput d)) s) =
     (if audioQueue s = [] \<and> \<not> isPlaying s
      then (audios s @ [\<lparr>audio_src = b, audio_status = Playing\<rparr>],
            Some (length (audios s)), True, [])
      else (audios s, currentAudio s, isPlaying s, audioQueue s @ [b]))"
  by (cases "audioQueue s") (simp_all add: Let_def playback_playAudio, simp_all add: playback_def)

lemma audio_output_busy:
  assumes "\<not> (audioQueue s = [] \<and> \<not> isPlaying s)"
  shows "\<exists>new. playback (step (SocketMessage i now (AudioOutput d)) s) =
           (audios s, currentAudio s, isPlaying s, audioQueue s @ new)"
proof (cases "base64ToBlob d (mimeType s)")
  case (Inl e)
  then have "playback (step (SocketMessage i now (AudioOutput d)) s) = playback s"
    by simp
  then have "playback (step (SocketMessage i now (AudioOutput d)) s) =
           (audios s, currentAudio s, isPlaying s, audioQueue s @ [])"
    by (simp add: playback_def)
  then show ?thesis by blast
next
  case (Inr b)
  have "playback (step (SocketMessage i now (AudioOutput d)) s) =
           (audios s, currentAudio s, isPlaying s, audioQueue s @ [b])"
    using assms by (simp only: audio_output_step [OF Inr] if_False simp_thms)
  then show ?thesis by blast
qed

lemma stop_step: "calls_stopAudio s e \<Longrightarrow> playback (step e s) = playback (stopAudio s)"
  by (cases e) (simp_all add: playback_gif_click)


lemma quiet_step:
  assumes "\<not> is_ended e" "\<not> is_at_end e" "\<not> calls_stopAudio s e" "\<not> is_audio_output e"
  shows "playback (step e s) = playback s"
proof (cases e)
  case (SocketMessage i now m)
  then show ?thesis using assms by (cases m) simp_all
next
  case (Click now)
  then show ?thesis using assms by (simp add: playback_gif_click)
qed (use assms in simp_all)

lemma audio_output_cases:
  assumes "is_audio_output e"
  obtains i now d where "e = SocketMessage i now (AudioOutput d)"
  using assms by (cases e rule: is_audio_output.cases) simp_all

lemma at_end_cases:
  assumes "is_at_end e"
  obtains a where "e = PlaybackAtEnd a"
  using assms by (cases e) simp_all

lemma flag_kept:
  assumes "isPlaying s" "\<not> is_ended e" "\<not> calls_stopAudio s e"
  shows "isPlaying (step e s)"
proof -
  consider (out) "is_audio_output e" | (fin) "is_at_end e"
    | (quiet) "\<not> is_audio_output e" "\<not> is_at_end e"
    by blast
  then show ?thesis
  proof cases
    case out
    then obtain i now d where e: "e = SocketMessage i now (AudioOutput d)"
      by (rule audio_output_cases)
    have "\<not> (audioQueue s = [] \<and> \<not> isPlaying s)" using assms(1) by simp
    then obtain new where "playback (step e s) =
            (audios s, currentAudio s, isPlaying s, audioQueue s @ new)"
      unfolding e using audio_output_busy by blast
    then show ?thesis using assms(1) by (simp add: playback_def)
  next
    case fin
    then obtain a where "e = PlaybackAtEnd a" by (rule at_end_cases)
    then show ?thesis using assms(1) by (simp add: set_status_def)
  next
    case quiet
    then have "playback (step e s) = playback s"
      using assms by (simp add: quiet_step)
    then show ?thesis using assms(1) by (simp add: playback_def)
  qed
qed


section \<open>One element in playback, as long as no stop meets a queued ended event\<close>

lemma playback_inv_cong: "playback s = playback t \<Longrightarrow> playback_inv s = playback_inv t"
  by (simp add: playback_def playback_inv_def)

lemma playback_inv_D:
  "playback_inv s \<Longrightarrow> a < length (audios s) \<Longrightarrow>
   audio_status (audios s ! a) = Playing \<or> audio_status (audios s ! a) = Finished \<Longrightarrow>
     Suc a = length (audios s) \<and> currentAudio s = Some a \<and> isPlaying s"
  by (auto simp: playback_inv_def)

lemma playback_inv_silent:
  "(\<And>a. a < length (audios s) \<Longrightarrow>
      audio_status (audios s ! a) \<noteq> Playing \<and> audio_status (audios s ! a) \<noteq> Finished)
   \<Longrightarrow> playback_inv s"
  by (simp add: playback_inv_def)

lemma playback_inv_audioQueue [simp]:
  "playback_inv (s\<lparr>audioQueue := q\<rparr>) = playback_inv s"
  by (simp add: playback_inv_def)

lemma playback_inv_throw [simp]: "playback_inv (throw e s) = playback_inv s"
  by (simp add: playback_inv_def throw_def)

lemma playAudio_inv: "playback_inv s \<Longrightarrow> playback_inv (playAudio s)"
  unfolding playback_inv_def playAudio_def
  by (cases "audioQueue s") (auto simp: nth_append less_Suc_eq)

lemma no_Finished:
  "\<not> list_ex (\<lambda>x. audio_status x = Finished) (audios s) \<Longrightarrow> a < length (audios s) \<Longrightarrow>
     audio_status (audios s ! a) \<noteq> Finished"
  by (auto simp: list_ex_iff)

lemma stopAudio_silent:
  assumes "playback_inv s" "\<not> list_ex (\<lambda>x. audio_status x = Finished) (audios s)"
    and "a < length (audios (stopAudio s))"
  shows "audio_status (audios (stopAudio s) ! a) \<noteq> Playing
         \<and> audio_status (audios (stopAudio s) ! a) \<noteq> Finished"
proof -
  have len: "a < length (audios s)"
    using assms(3) by (simp add: audios_stopAudio pause_def split: option.splits if_splits)
  have nf: "audio_status (audios s ! a) \<noteq> Finished"
    using assms(2) len by (rule no_Finished)
  show ?thesis
  proof (cases "audio_status (audios s ! a) = Playing")
    case True
    then have "currentAudio s = Some a"
      using assms(1) len playback_inv_D by blast
    then show ?thesis using True len
      by (simp add: audios_stopAudio pause_def)
  next
    case False
    then show ?thesis using nf len
      by (auto simp: audios_stopAudio pause_def nth_list_update split: option.splits)
  qed
qed

lemma stopAudio_inv:
  "playback_inv s \<Longrightarrow> \<not> list_ex (\<lambda>x. audio_status x = Finished) (audios s) \<Longrightarrow>
     playback_inv (stopAudio s)"
  by (rule playback_inv_silent) (rule stopAudio_silent)

lemma at_end_inv:
  assumes "playback_inv s" "a < length (audios s)" "audio_status (audios s ! a) = Playing"
  shows "playback_inv (set_status a Finished s)"
  unfolding playback_inv_def
proof (intro allI impI)
  fix b
  assume b: "b < length (audios (set_status a Finished s))"
    and st: "audio_status (audios (set_status a Finished s) ! b) \<in> {Playing, Finished}"
  have len: "b < length (audios s)" using b by (simp add: set_status_def)
  have "audio_status (audios s ! b) = Playing \<or> audio_status (audios s ! b) = Finished"
    using st len assms(3) by (cases "b = a") (auto simp: set_status_def)
  from playback_inv_D [OF assms(1) len this]
  show "Suc b = length (audios (set_status a Finished s))
        \<and> currentAudio (set_status a Finished s) = Some b \<and> isPlaying (set_status a Finished s)"
    by (simp add: set_status_def)
qed

lemma ended_inv:
  assumes "playback_inv s" "a < length (audios s)" "audio_status (audios s ! a) = Finished"
  shows "playback_inv (onended (set_status a Ended s))"
proof -
  have "playback_inv ((set_status a Ended s)\<lparr>isPlaying := False\<rparr>)"
  proof (rule playback_inv_silent)
    fix b
    assume b: "b < length (audios ((set_status a Ended s)\<lparr>isPlaying := False\<rparr>))"
    then have len: "b < length (audios s)" by (simp add: set_status_def)
    show "audio_status (audios ((set_status a Ended s)\<lparr>isPlaying := False\<rparr>) ! b) \<noteq> Playing
          \<and> audio_status (audios ((set_status a Ended s)\<lparr>isPlaying := False\<rparr>) ! b) \<noteq> Finished"
    proof (cases "b = a")
      case True
      then show ?thesis using assms(2) by (simp add: set_status_def)
    next
      case False
      have "Suc a = length (audios s)"
        using playback_inv_D [OF assms(1) assms(2)] assms(3) by simp
      then have "Suc b \<noteq> length (audios s)" using False by simp
      then have "audio_status (audios s ! b) \<noteq> Playing \<and> audio_status (audios s ! b) \<noteq> Finished"
        using playback_inv_D [OF assms(1) len] by blast
      then show ?thesis using False by (simp add: set_status_def)
    qed
  qed
  then show ?thesis
    unfolding onended_def Let_def by (simp add: playAudio_inv)
qed

lemma step_inv:
  assumes "playback_inv s" "enabled s e"
    and "\<not> (calls_stopAudio s e \<and> list_ex (\<lambda>x. audio_status x = Finished) (audios s))"
  shows "playback_inv (step e s)"
proof -
  consider (ended) "is_ended e" | (fin) "is_at_end e" | (stop) "calls_stopAudio s e"
    | (out) "is_audio_output e" "\<not> calls_stopAudio s e"
    | (quiet) "\<not> is_ended e" "\<not> is_at_end e" "\<not> calls_stopAudio s e" "\<not> is_audio_output e"
    by blast
  then show ?thesis
  proof cases
    case ended
    then obtain a where "e = AudioEnded a" by (cases e) simp_all
    then show ?thesis using assms(1,2) by (simp add: ended_inv)
  next
    case fin
    then obtain a where "e = PlaybackAtEnd a" by (rule at_end_cases)
    then show ?thesis using assms(1,2) by (simp add: at_end_inv)
  next
    case stop
    then have "playback (step e s) = playback (stopAudio s)" by (rule stop_step)
    then have "playback_inv (step e s) = playback_inv (stopAudio s)" by (rule playback_inv_cong)
    moreover have "\<not> list_ex (\<lambda>x. audio_status x = Finished) (audios s)"
      using assms(3) stop by blast
    ultimately show ?thesis using stopAudio_inv [OF assms(1)] by blast
  next
    case out
    from out(1) obtain i now d where e: "e = SocketMessage i now (AudioOutput d)"
      by (rule audio_output_cases)
    show ?thesis unfolding e using assms(1)
      by (simp add: Let_def playAudio_inv split: sum.splits)
  next
    case quiet
    then have "playback (step e s) = playback s" by (rule quiet_step)
    then have "playback_inv (step e s) = playback_inv s" by (rule playback_inv_cong)
    then show ?thesis using assms(1) by simp
  qed
qed

lemma run_inv:
  "playback_inv s \<Longrightarrow> no_stop_before_ended es s \<Longrightarrow> run es s = Some s' \<Longrightarrow> playback_inv s'"
proof (induction es arbitrary: s)
  case Nil
  then show ?case by simp
next
  case (Cons e es)
  from Cons.prems(3) have en: "enabled s e" and r: "run es (step e s) = Some s'"
    by (simp_all split: if_splits)
  from Cons.prems(2)
  have ok: "\<not> (calls_stopAudio s e \<and> list_ex (\<lambda>x. audio_status x = Finished) (audios s))"
    and rest: "no_stop_before_ended es (step e s)"
    by simp_all
  have "playback_inv (step e s)"
    using Cons.prems(1) en ok by (rule step_inv)
  then show ?case using rest r by (rule Cons.IH)
qed

lemma inv_playing: "playback_inv s \<Longrightarrow> length (playing s) \<le> 1"
proof -
  assume inv: "playback_inv s"
  have sub: "set (playing s) \<subseteq> {length (audios s) - 1}"
    using inv by (auto simp: playing_def playback_inv_def)
  have "distinct (playing s)" by (simp add: playing_def)
  then have "length (playing s) = card (set (playing s))"
    by (simp add: distinct_card)
  also have "\<dots> \<le> card {length (audios s) - 1}"
    using sub by (intro card_mono) auto
  finally show ?thesis by simp
qed

lemma single_playback:
  assumes "playback_inv s" "no_stop_before_ended es s" "run es s = Some s'"
  shows "length (playing s') \<le> 1"
proof -
  have "playback_inv s'"
    using assms by (rule run_inv)
  then show ?thesis by (rule inv_playing)
qed

section \<open>What reaches sendAudio\<close>

lemma sendAudio_calls_append [simp]:
  "sendAudio_calls (xs @ ys) = sendAudio_calls xs @ sendAudio_calls ys"
  by (induction xs rule: sendAudio_calls.induct) simp_all

lemma sent_gif_click: "sent (gif_click now s) = sent s"
  by (simp add: gif_click_def sent_def split: option.splits)

lemma resume_pending:
  "set (pendingBuffers (ondataavailable_resume k s)) \<subseteq> set (pendingBuffers s)"
proof -
  have "set (take k (pendingBuffers s)) \<subseteq> set (pendingBuffers s)"
    by (rule set_take_subset)
  moreover have "set (drop (Suc k) (pendingBuffers s)) \<subseteq> set (pendingBuffers s)"
    by (rule set_drop_subset)
  ultimately show ?thesis by simp
qed

lemma resume_sent:
  "set (sent (ondataavailable_resume k s)) \<subseteq> set (sent s) \<union> set (pendingBuffers s)"
  by (cases "client s") (simp_all add: sent_def)

lemma step_upload:
  "set (pendingBuffers (step e s)) \<union> set (sent (step e s))
     \<subseteq> set (pendingBuffers s) \<union> set (sent s) \<union> set (passed_guard [e] s)"
proof (cases e)
  case (BufferReady k)
  then show ?thesis using resume_pending [of k s] resume_sent [of k s]
    by (simp del: ondataavailable_resume_frame) blast
next
  case (Click now)
  then show ?thesis by (simp add: sent_gif_click)
next
  case (DataAvailable r d)
  then show ?thesis by (auto simp: sent_def)
qed (simp_all add: sent_def)

lemma passed_guard_Cons:
  "passed_guard (e # es) s = passed_guard [e] s @ passed_guard es (step e s)"
  by (cases e) simp_all

lemma run_upload:
  "run es s = Some s' \<Longrightarrow>
     set (pendingBuffers s') \<union> set (sent s')
       \<subseteq> set (pendingBuffers s) \<union> set (sent s) \<union> set (passed_guard es s)"
proof (induction es arbitrary: s)
  case Nil
  then show ?case by auto
next
  case (Cons e es)
  from Cons.prems have r: "run es (step e s) = Some s'"
    by (simp split: if_splits)
  have "set (pendingBuffers s') \<union> set (sent s')
          \<subseteq> set (pendingBuffers (step e s)) \<union> set (sent (step e s))
            \<union> set (passed_guard es (step e s))"
    by (rule Cons.IH [OF r])
  moreover have "set (pendingBuffers (step e s)) \<union> set (sent (step e s))
          \<subseteq> set (pendingBuffers s) \<union> set (sent s) \<union> set (passed_guard [e] s)"
    by (rule step_upload)
  ultimately show ?case
    by (subst passed_guard_Cons) auto
qed

section \<open>The two functions of the start-up that can fail\<close>

lemma token_body:
  "URLSearchParams_toString [(lit ''grant_type'', lit ''client_credentials'')] =
     lit ''grant_type=client_credentials''"
  by code_simp

lemma requestMicrophonePermission_log:
  "requestMicrophonePermission mic s = (None, s\<lparr>trace := trace s @ GetAudioStream # mic_log mic\<rparr>)"
  by (cases mic) (simp_all add: requestMicrophonePermission_def call_def mic_log_def)

lemma authenticate_invalid:
  "btoa (or_empty k @ lit '':'' @ or_empty sec) = Inl e \<Longrightarrow> authenticate k sec res s = (Some e, s)"
  by (simp add: authenticate_def Let_def)

lemma authenticate_fetch_rejected:
  "btoa (or_empty k @ lit '':'' @ or_empty sec) = Inr encoded \<Longrightarrow>
   authenticate k sec (FetchRejected e) s =
     (None, s\<lparr>trace := trace s @
        [Fetch (token_request encoded), ConsoleError (lit ''Failed to authenticate:'') e]\<rparr>)"
  by (simp add: authenticate_def Let_def call_def)

lemma authenticate_json_rejected:
  "btoa (or_empty k @ lit '':'' @ or_empty sec) = Inr encoded \<Longrightarrow>
   authenticate k sec (FetchResolved (JsonRejected e)) s =
     (None, s\<lparr>trace := trace s @
        [Fetch (token_request encoded), ResJson, ConsoleError (lit ''Failed to authenticate:'') e]\<rparr>)"
  by (simp add: authenticate_def Let_def call_def)

lemma authenticate_no_property:
  "btoa (or_empty k @ lit '':'' @ or_empty sec) = Inr encoded \<Longrightarrow>
   get_property data (lit ''access_token'') = Inl e \<Longrightarrow>
   authenticate k sec (FetchResolved (JsonResolved data)) s =
     (None, s\<lparr>trace := trace s @
        [Fetch (token_request encoded), ResJson, ConsoleError (lit ''Failed to authenticate:'') e]\<rparr>)"
  by (simp add: authenticate_def Let_def call_def)

lemma authenticate_no_string:
  "btoa (or_empty k @ lit '':'' @ or_empty sec) = Inr encoded \<Longrightarrow>
   get_property data (lit ''access_token'') = Inr v \<Longrightarrow> String_js v = Inl e \<Longrightarrow>
   authenticate k sec (FetchResolved (JsonResolved data)) s =
     (None, s\<lparr>trace := trace s @
        [Fetch (token_request encoded), ResJson, ConsoleError (lit ''Failed to authenticate:'') e]\<rparr>)"
  by (simp add: authenticate_def Let_def call_def)

lemma authenticate_stores:
  "btoa (or_empty k @ lit '':'' @ or_empty sec) = Inr encoded \<Longrightarrow>
   get_property data (lit ''access_token'') = Inr v \<Longrightarrow> String_js v = Inr token \<Longrightarrow>
   authenticate k sec (FetchResolved (JsonResolved data)) s =
     (None, s\<lparr>trace := trace s @ [Fetch (token_request encoded), ResJson],
              accessToken := Some token\<rparr>)"
  by (simp add: authenticate_def Let_def call_def)

lemma authenticate_log:
  assumes "btoa (or_empty k @ lit '':'' @ or_empty sec) = Inr encoded"
  shows "authenticate k sec res s =
     (None, s\<lparr>trace := trace s @ Fetch (token_request encoded) # token_log res,
              accessToken := token_after res (accessToken s)\<rparr>)"
proof (cases res)
  case (FetchRejected e)
  then show ?thesis
    using authenticate_fetch_rejected [OF assms, of e s] by (simp add: token_after_def)
next
  case (FetchResolved js)
  show ?thesis
  proof (cases js)
    case (JsonRejected e)
    then show ?thesis
      using FetchResolved authenticate_json_rejected [OF assms, of e s]
      by (simp add: token_after_def)
  next
    case (JsonResolved data)
    show ?thesis
    proof (cases "get_property data (lit ''access_token'')")
      case (Inl e)
      then show ?thesis
        using FetchResolved JsonResolved authenticate_no_property [OF assms Inl, of s]
        by (simp add: token_after_def)
    next
      case (Inr v)
      note v = Inr
      show ?thesis
      proof (cases "String_js v")
        case (Inl e)
        then show ?thesis
          using FetchResolved JsonResolved v authenticate_no_string [OF assms v Inl, of s]
          by (simp add: token_after_def)
      next
        case (Inr token)
        then show ?thesis
          using FetchResolved JsonResolved v authenticate_stores [OF assms v Inr, of s]
          by (simp add: token_after_def)
      qed
    qed
  qed
qed


lemma connect_cases:
  "connect s =
     (case accessToken s of
        None \<Rightarrow> (Some ConfigError, snd (connect s))
      | Some token \<Rightarrow> (None, snd (connect s)))"
  using connect_frame(1) [of s] by (cases "connect s") (auto split: option.splits)

lemma startup_invalid:
  assumes "btoa (or_empty (env_VITE_HUME_API_KEY env) @ lit '':'' @
                 or_empty (env_VITE_HUME_CLIENT_SECRET env)) = Inl e"
  shows "startup env s =
           throw e (s\<lparr>trace := trace s @ GetAudioStream # mic_log (env_mic env)\<rparr>)"
  by (simp add: startup_def requestMicrophonePermission_log authenticate_invalid [OF assms])

lemma startup_connects:
  assumes "btoa (or_empty (env_VITE_HUME_API_KEY env) @ lit '':'' @
                 or_empty (env_VITE_HUME_CLIENT_SECRET env)) = Inr encoded"
  shows "startup env s =
           (case connect
              (s\<lparr>trace := trace s @ GetAudioStream # mic_log (env_mic env) @
                      Fetch (token_request encoded) # token_log (env_fetch env),
                 accessToken := token_after (env_fetch env) (accessToken s)\<rparr>) of
              (Some e, s3) \<Rightarrow> throw e s3
            | (None, s3) \<Rightarrow> addClickListener s3)"
  by (simp add: startup_def requestMicrophonePermission_log authenticate_log [OF assms])

lemma startup_no_token:
  assumes "btoa (or_empty (env_VITE_HUME_API_KEY env) @ lit '':'' @
                 or_empty (env_VITE_HUME_CLIENT_SECRET env)) = Inr encoded"
    and "token_after (env_fetch env) (accessToken s) = None"
  shows "startup env s =
           throw ConfigError (snd (connect
             (s\<lparr>trace := trace s @ GetAudioStream # mic_log (env_mic env) @
                     Fetch (token_request encoded) # token_log (env_fetch env),
                accessToken := None\<rparr>)))"
proof -
  have "fst (connect
             (s\<lparr>trace := trace s @ GetAudioStream # mic_log (env_mic env) @
                     Fetch (token_request encoded) # token_log (env_fetch env),
                accessToken := None\<rparr>)) = Some ConfigError"
    by simp
  then obtain s3 where c: "connect
             (s\<lparr>trace := trace s @ GetAudioStream # mic_log (env_mic env) @
                     Fetch (token_request encoded) # token_log (env_fetch env),
                accessToken := None\<rparr>) = (Some ConfigError, s3)"
    by (metis prod.collapse)
  show ?thesis
    by (simp add: startup_connects [OF assms(1)] assms(2) c)
qed

lemma startup_token:
  assumes "btoa (or_empty (env_VITE_HUME_API_KEY env) @ lit '':'' @
                 or_empty (env_VITE_HUME_CLIENT_SECRET env)) = Inr encoded"
    and "token_after (env_fetch env) (accessToken s) = Some token"
  shows "startup env s =
           addClickListener (snd (connect
             (s\<lparr>trace := trace s @ GetAudioStream # mic_log (env_mic env) @
                     Fetch (token_request encoded) # token_log (env_fetch env),
                accessToken := Some token\<rparr>)))"
proof -
  have "fst (connect
             (s\<lparr>trace := trace s @ GetAudioStream # mic_log (env_mic env) @
                     Fetch (token_request encoded) # token_log (env_fetch env),
                accessToken := Some token\<rparr>)) = None"
    by simp
  then obtain s3 where c: "connect
             (s\<lparr>trace := trace s @ GetAudioStream # mic_log (env_mic env) @
                     Fetch (token_request encoded) # token_log (env_fetch env),
                accessToken := Some token\<rparr>) = (None, s3)"
    by (metis prod.collapse)
  show ?thesis
    by (simp add: startup_connects [OF assms(1)] assms(2) c)
qed

lemma steps_append [simp]: "steps (xs @ ys) = steps xs @ steps ys"
  by (induction xs rule: steps.induct) simp_all

lemma steps_mic_log [simp]: "steps (mic_log mic) = []"
  by (cases mic) (simp_all add: mic_log_def)

lemma steps_token_log [simp]: "steps (token_log res) = []"
  by (cases res rule: token_log.cases) (simp_all split: sum.splits)


lemma mimeType_startup: "mimeType (startup env s) = mimeType s"
proof (cases "btoa (or_empty (env_VITE_HUME_API_KEY env) @ lit '':'' @
                   or_empty (env_VITE_HUME_CLIENT_SECRET env))")
  case (Inl e)
  then show ?thesis by (simp add: startup_invalid [OF Inl])
next
  case (Inr encoded)
  show ?thesis
  proof (cases "token_after (env_fetch env) (accessToken s)")
    case None
    then show ?thesis by (simp add: startup_no_token [OF Inr None])
  next
    case (Some token)
    then show ?thesis by (simp add: startup_token [OF Inr Some])
  qed
qed

section \<open>The transcript, the queue and disconnecting\<close>

lemma chat_appendMessage:
  "chat (appendMessage now r content s) =
     map_option (\<lambda>children. children @
        [lit ''<strong>['' @ now @ lit ''] '' @ role_str r @ lit '':</strong> '' @ content])
       (chat s)"
  by (simp add: appendMessage_def split: option.splits)

lemma audio_output_pipeline:
  "base64ToBlob d (mimeType s) = Inr b \<Longrightarrow>
   map audio_src (audios (on_message now (AudioOutput d) s)) @
     audioQueue (on_message now (AudioOutput d) s) =
   map audio_src (audios s) @ audioQueue s @ [b]"
  by (cases "audioQueue s") (simp_all add: playAudio_def Let_def)

lemma audio_output_queue:
  "base64ToBlob d (mimeType s) = Inr b \<Longrightarrow>
   audioQueue (on_message now (AudioOutput d) s) =
     (if audioQueue s = [] \<and> \<not> isPlaying s then [] else audioQueue s @ [b])"
  by (cases "audioQueue s") (simp_all add: playAudio_def Let_def)

lemma chat_audio_output: "chat (on_message now (AudioOutput d) s) = chat s"
  by (simp add: Let_def split: sum.splits)

lemma other_message:
  "message_type m \<notin> {lit ''user_message'', lit ''assistant_message'', lit ''audio_output'',
      lit ''user_interruption''} \<Longrightarrow> on_message now m s = s"
  by (cases m) (simp_all add: message_type_def)

lemma stopAudio_pauses:
  "currentAudio s = Some a \<Longrightarrow> a < length (audios s) \<Longrightarrow> audio_status (audios s ! a) = Playing
     \<Longrightarrow> audio_status (audios (stopAudio s) ! a) = Paused"
  by (simp add: audios_stopAudio pause_def)

lemma disconnect_handles:
  "recorder (disconnect now s) = None \<and> audioStream (disconnect now s) = None"
  by (simp add: disconnect_def Let_def split: option.splits)

lemma disconnect_recorder_stopped:
  "recorder s = Some r \<Longrightarrow> r < length (recorders s) \<Longrightarrow>
     rec_state (recorders (disconnect now s) ! r) = Inactive"
  by (simp add: disconnect_def Let_def recorder_stop_def split: option.splits)

lemma disconnect_client_closing:
  "client s = Some i \<Longrightarrow> i < length (clients s) \<Longrightarrow> readyState (clients s ! i) = OPEN \<Longrightarrow>
     readyState (clients (disconnect now s) ! i) = CLOSING"
  by (cases "recorder s") (simp_all add: disconnect_def Let_def clients_client_disconnect)

lemma chat_disconnect:
  "chat (disconnect now s) =
     map_option (\<lambda>children. children @
        [lit ''<strong>['' @ now @ lit ''] '' @ role_str System @ lit '':</strong> '' @
         lit ''Conversation ended.''])
       (chat s)"
  by (simp add: disconnect_def Let_def chat_appendMessage recorder_stop_def client_disconnect_def
      call_def split: option.splits)

section \<open>The example session, evaluated\<close>

lemma example_started_value [code]:
  "example_started =
     \<lparr>accessToken = Some (lit ''tok''), client = Some 0, isPlaying = False, currentAudio = None,
      audioStream = None, recorder = None, audioQueue = [], mimeType = lit ''audio/webm'',
      chat = Some [], gif = Some True,
      clients = [\<lparr>auth_value = lit ''tok'', readyState = CONNECTING\<rparr>],
      audios = [], recorders = [], pendingCapture = 0, pendingBuffers = [], uncaught = [],
      trace =
        [GetAudioStream,
         Fetch \<lparr>req_url = lit ''https://api.hume.ai/oauth2-cc/token'',
                req_method = lit ''POST'',
                req_headers =
                  [(lit ''Content-Type'', lit ''application/x-www-form-urlencoded''),
                   (lit ''Authorization'', lit ''Basic a2V5OnNlY3JldA=='')],
                req_body = lit ''grant_type=client_credentials'',
                req_cache = lit ''no-cache''\<rparr>,
         ResJson, CreateConfig (Some (lit ''tok'')), CreateClient (lit ''tok''), ClientConnect 0,
         AddClickListener]\<rparr>"
  by code_simp

section \<open>The claims\<close>

text \<open>
  C1. For every message given to the \<open>message\<close> handler: a \<open>user_message\<close> or
  \<open>assistant_message\<close> appends one paragraph with the message's role and content to the
  chat transcript (where the page has a chat element); an \<open>audio_output\<close> whose data
  is base64 text, so that \<open>base64ToBlob\<close> decodes it to a blob, pushes that blob onto
  the tail of the playback queue, from where \<open>playAudio\<close> takes it at once when the
  queue was empty and nothing was playing; an \<open>audio_output\<close> whose data \<open>atob\<close>
  rejects ends the handler with that error and nothing pushed; a message of any other
  type, \<open>user_interruption\<close> apart, leaves transcript and queue as they are.
\<close>

theorem on_message_effect:
  "chat (on_message now (UserMessage r content) s) =
     map_option (\<lambda>children. children @
        [lit ''<strong>['' @ now @ lit ''] '' @ role_str r @ lit '':</strong> '' @ content])
       (chat s)
   \<and> chat (on_message now (AssistantMessage r content) s) =
     map_option (\<lambda>children. children @
        [lit ''<strong>['' @ now @ lit ''] '' @ role_str r @ lit '':</strong> '' @ content])
       (chat s)
   \<and> (base64ToBlob d (mimeType s) = Inr b \<longrightarrow>
        map audio_src (audios (on_message now (AudioOutput d) s)) @
          audioQueue (on_message now (AudioOutput d) s) =
        map audio_src (audios s) @ audioQueue s @ [b]
        \<and> audioQueue (on_message now (AudioOutput d) s) =
          (if audioQueue s = [] \<and> \<not> isPlaying s then [] else audioQueue s @ [b]))
   \<and> (base64ToBlob d (mimeType s) = Inl e \<longrightarrow>
        on_message now (AudioOutput d) s = s\<lparr>uncaught := uncaught s @ [e]\<rparr>)
   \<and> chat (on_message now (AudioOutput d) s) = chat s
   \<and> (message_type m \<notin> {lit ''user_message'', lit ''assistant_message'', lit ''audio_output'',
          lit ''user_interruption''} \<longrightarrow>
        chat (on_message now m s) = chat s \<and> audioQueue (on_message now m s) = audioQueue s)"
proof (intro conjI impI)
  assume ok: "base64ToBlob d (mimeType s) = Inr b"
  show "map audio_src (audios (on_message now (AudioOutput d) s)) @
          audioQueue (on_message now (AudioOutput d) s) =
        map audio_src (audios s) @ audioQueue s @ [b]"
    using ok by (rule audio_output_pipeline)
  show "audioQueue (on_message now (AudioOutput d) s) =
          (if audioQueue s = [] \<and> \<not> isPlaying s then [] else audioQueue s @ [b])"
    using ok by (rule audio_output_queue)
next
  assume "base64ToBlob d (mimeType s) = Inl e"
  then show "on_message now (AudioOutput d) s = s\<lparr>uncaught := uncaught s @ [e]\<rparr>"
    by (simp add: throw_def)
next
  show "chat (on_message now (AudioOutput d) s) = chat s"
    by (rule chat_audio_output)
qed (simp_all add: chat_appendMessage other_message)

theorem on_message_effect_witness:
  "chat (on_message (lit ''10:00:03'') (UserMessage User (lit ''hi'')) (state_after example_recording))
     = Some [lit ''<strong>[10:00:03] user:</strong> hi'']
   \<and> map audio_src (audios (on_message (lit ''10:00:00'') (AudioOutput (lit ''QQ==''))
        (state_after example_recording))) @
      audioQueue (on_message (lit ''10:00:00'') (AudioOutput (lit ''QQ==''))
        (state_after example_recording))
     = [Blob [0x41] (lit ''audio/webm'')]
   \<and> audioQueue (on_message (lit ''10:00:03'') (AudioOutput (lit ''Qg==''))
        (state_after (example_recording @ [audio_A])))
     = [Blob [0x42] (lit ''audio/webm'')]
   \<and> on_message (lit ''10:00:03'') (AudioOutput (lit ''@@@@'')) (state_after example_recording)
     = (state_after example_recording)\<lparr>uncaught := [InvalidCharacterError]\<rparr>
   \<and> chat (on_message (lit ''10:00:03'') (OtherMessage (lit ''assistant_end''))
        (state_after example_recording)) = chat (state_after example_recording)"
proof -
  have c: "chat (state_after example_recording) = Some []"
    by code_simp
  have p: "audios (state_after example_recording) = []
           \<and> audioQueue (state_after example_recording) = []
           \<and> uncaught (state_after example_recording) = []"
    by code_simp
  have da: "base64ToBlob (lit ''QQ=='') (mimeType (state_after example_recording))
              = Inr (Blob [0x41] (lit ''audio/webm''))"
    by code_simp
  have q: "audioQueue (state_after (example_recording @ [audio_A])) = []
           \<and> isPlaying (state_after (example_recording @ [audio_A]))"
    by code_simp
  have db: "base64ToBlob (lit ''Qg=='') (mimeType (state_after (example_recording @ [audio_A])))
              = Inr (Blob [0x42] (lit ''audio/webm''))"
    by code_simp
  have dx: "base64ToBlob (lit ''@@@@'') (mimeType (state_after example_recording))
              = Inl InvalidCharacterError"
    by code_simp
  have t: "message_type (OtherMessage (lit ''assistant_end'')) \<notin>
             {lit ''user_message'', lit ''assistant_message'', lit ''audio_output'',
              lit ''user_interruption''}"
    by (simp add: message_type_def lit_def)
  have "chat (on_message (lit ''10:00:03'') (UserMessage User (lit ''hi''))
           (state_after example_recording))
          = Some [lit ''<strong>[10:00:03] user:</strong> hi'']"
    using on_message_effect [where now = "lit ''10:00:03''" and r = User and content = "lit ''hi''"
        and s = "state_after example_recording"] c
    by (simp add: role_str_def lit_def)
  moreover have "map audio_src (audios (on_message (lit ''10:00:00'') (AudioOutput (lit ''QQ==''))
        (state_after example_recording))) @
      audioQueue (on_message (lit ''10:00:00'') (AudioOutput (lit ''QQ==''))
        (state_after example_recording))
     = [Blob [0x41] (lit ''audio/webm'')]"
  proof -
    have "map audio_src (audios (on_message (lit ''10:00:00'') (AudioOutput (lit ''QQ==''))
        (state_after example_recording))) @
      audioQueue (on_message (lit ''10:00:00'') (AudioOutput (lit ''QQ==''))
        (state_after example_recording))
     = map audio_src (audios (state_after example_recording)) @
       audioQueue (state_after example_recording) @ [Blob [0x41] (lit ''audio/webm'')]"
      using on_message_effect [where now = "lit ''10:00:00''" and d = "lit ''QQ==''"
          and b = "Blob [0x41] (lit ''audio/webm'')" and s = "state_after example_recording"] da
      by blast
    then show ?thesis using p by (simp del: on_message.simps)
  qed
  moreover have "audioQueue (on_message (lit ''10:00:03'') (AudioOutput (lit ''Qg==''))
        (state_after (example_recording @ [audio_A])))
     = [Blob [0x42] (lit ''audio/webm'')]"
    using on_message_effect [where now = "lit ''10:00:03''" and d = "lit ''Qg==''"
        and b = "Blob [0x42] (lit ''audio/webm'')"
        and s = "state_after (example_recording @ [audio_A])"] db q
    by (simp del: on_message.simps)
  moreover have "on_message (lit ''10:00:03'') (AudioOutput (lit ''@@@@''))
        (state_after example_recording)
     = (state_after example_recording)\<lparr>uncaught := [InvalidCharacterError]\<rparr>"
    using on_message_effect [where now = "lit ''10:00:03''" and d = "lit ''@@@@''"
        and e = InvalidCharacterError and s = "state_after example_recording"] dx p
    by (simp del: on_message.simps)
  moreover have "chat (on_message (lit ''10:00:03'') (OtherMessage (lit ''assistant_end''))
        (state_after example_recording)) = chat (state_after example_recording)"
    using on_message_effect [where now = "lit ''10:00:03''"
        and m = "OtherMessage (lit ''assistant_end'')" and s = "state_after example_recording"] t
    by blast
  ultimately show ?thesis by (intro conjI)
qed

text \<open>
  C10. \<open>stopAudio\<close> pauses the audio element that is playing, sets the current-audio
  handle to null and the playing flag to false, and empties the playback queue; a
  \<open>user_interruption\<close> message does exactly that, and \<open>disconnect\<close> leaves the audio
  elements, the handle, the flag and the queue as \<open>stopAudio\<close> does.
\<close>

theorem stopAudio_effect:
  "currentAudio (stopAudio s) = None \<and> \<not> isPlaying (stopAudio s) \<and> audioQueue (stopAudio s) = []
   \<and> (\<forall>a. currentAudio s = Some a \<and> a < length (audios s)
           \<and> audio_status (audios s ! a) = Playing \<longrightarrow>
         audio_status (audios (stopAudio s) ! a) = Paused)
   \<and> step (SocketMessage i now UserInterruption) s = stopAudio s
   \<and> playback (disconnect now s) = playback (stopAudio s)"
proof -
  have "currentAudio (stopAudio s) = None \<and> \<not> isPlaying (stopAudio s)
          \<and> audioQueue (stopAudio s) = []"
    using playback_stopAudio [of s] by (simp add: playback_def)
  moreover have "\<forall>a. currentAudio s = Some a \<and> a < length (audios s)
           \<and> audio_status (audios s ! a) = Playing \<longrightarrow>
         audio_status (audios (stopAudio s) ! a) = Paused"
    by (simp add: stopAudio_pauses)
  moreover have "step (SocketMessage i now UserInterruption) s = stopAudio s"
    by simp
  ultimately show ?thesis
    using playback_disconnect [of now s] by blast
qed

theorem stopAudio_effect_witness:
  "audio_status (audios (stopAudio (state_after (example_recording @ [audio_A, audio_B]))) ! 0)
     = Paused
   \<and> audioQueue (state_after (example_recording @ [audio_A, audio_B])) \<noteq> []
   \<and> audioQueue (stopAudio (state_after (example_recording @ [audio_A, audio_B]))) = []"
proof -
  have h: "currentAudio (state_after (example_recording @ [audio_A, audio_B])) = Some 0
           \<and> 0 < length (audios (state_after (example_recording @ [audio_A, audio_B])))
           \<and> audio_status (audios (state_after (example_recording @ [audio_A, audio_B])) ! 0)
               = Playing"
    by code_simp
  have q: "audioQueue (state_after (example_recording @ [audio_A, audio_B])) \<noteq> []"
    by code_simp
  show ?thesis
    using stopAudio_effect [where s = "state_after (example_recording @ [audio_A, audio_B])"] h q
    by blast
qed

text \<open>
  C5. The click listener of the gif: with no client the click does nothing; with a
  client whose \<open>readyState\<close> is \<open>OPEN\<close> it calls \<open>disconnect\<close>, which stops the audio
  (the element that is playing is paused, the handle set to null, the flag cleared and
  the queue emptied), stops the recorder and drops its handle, and disconnects the
  client; with a client in any other state it calls \<open>connect\<close>, without awaiting it.
\<close>

theorem gif_click_dispatch:
  "(client s = None \<longrightarrow> gif_click now s = s)
   \<and> (client s = Some i \<and> i < length (clients s) \<and> readyState (clients s ! i) = OPEN \<longrightarrow>
        gif_click now s = disconnect now s)
   \<and> (client s = Some i \<and> \<not> (i < length (clients s) \<and> readyState (clients s ! i) = OPEN) \<longrightarrow>
        gif_click now s = unawaited (connect s))
   \<and> (gif s = Some True \<longrightarrow> step (Click now) s = gif_click now s)
   \<and> playback (disconnect now s) = playback (stopAudio s)
   \<and> currentAudio (disconnect now s) = None \<and> \<not> isPlaying (disconnect now s)
   \<and> audioQueue (disconnect now s) = []
   \<and> (currentAudio s = Some a \<and> a < length (audios s) \<and> audio_status (audios s ! a) = Playing \<longrightarrow>
        audio_status (audios (disconnect now s) ! a) = Paused)
   \<and> recorder (disconnect now s) = None
   \<and> (recorder s = Some r \<and> r < length (recorders s) \<longrightarrow>
        rec_state (recorders (disconnect now s) ! r) = Inactive)
   \<and> (client s = Some i \<longrightarrow> trace (disconnect now s) = trace s @ [ClientDisconnect i])
   \<and> (client s = Some i \<and> i < length (clients s) \<and> readyState (clients s ! i) = OPEN \<longrightarrow>
        readyState (clients (disconnect now s) ! i) = CLOSING)
   \<and> (accessToken s = Some token \<longrightarrow>
        trace (unawaited (connect s)) =
          trace s @ [CreateConfig (Some token), CreateClient token, ClientConnect (length (clients s))]
        \<and> clients (unawaited (connect s)) =
          clients s @ [\<lparr>auth_value = token, readyState = CONNECTING\<rparr>]
        \<and> client (unawaited (connect s)) = Some (length (clients s)))"
proof (intro conjI impI)
  have p: "playback (disconnect now s) = playback (stopAudio s)"
    by (rule playback_disconnect)
  have q: "playback (stopAudio s) =
     (case currentAudio s of None \<Rightarrow> audios s | Some a \<Rightarrow> audios (pause a s), None, False, [])"
    by (rule playback_stopAudio)
  show "playback (disconnect now s) = playback (stopAudio s)"
    by (rule p)
  show "currentAudio (disconnect now s) = None"
    using p q by (simp add: playback_def)
  show "\<not> isPlaying (disconnect now s)"
    using p q by (simp add: playback_def)
  show "audioQueue (disconnect now s) = []"
    using p q by (simp add: playback_def)
  show "recorder (disconnect now s) = None"
    by (simp add: disconnect_handles)
next
  assume a: "currentAudio s = Some a \<and> a < length (audios s) \<and> audio_status (audios s ! a) = Playing"
  have "audios (disconnect now s) = audios (stopAudio s)"
    using playback_disconnect [of now s] by (simp add: playback_def)
  then show "audio_status (audios (disconnect now s) ! a) = Paused"
    using a by (simp add: stopAudio_pauses)
next
  assume "recorder s = Some r \<and> r < length (recorders s)"
  then show "rec_state (recorders (disconnect now s) ! r) = Inactive"
    by (simp add: disconnect_recorder_stopped)
next
  assume "client s = Some i \<and> i < length (clients s) \<and> readyState (clients s ! i) = OPEN"
  then show "readyState (clients (disconnect now s) ! i) = CLOSING"
    by (simp add: disconnect_client_closing)
next
  assume "client s = Some i \<and> \<not> (i < length (clients s) \<and> readyState (clients s ! i) = OPEN)"
  then show "gif_click now s = unawaited (connect s)"
    by (auto simp: gif_click_def client_is_open_def)
qed (simp_all add: gif_click_def client_is_open_def)

theorem gif_click_dispatch_witness:
  "gif_click (lit ''10:00:05'') example_page = example_page
   \<and> gif_click (lit ''10:00:05'') (state_after (example_recording @ [audio_A, audio_B]))
       = disconnect (lit ''10:00:05'') (state_after (example_recording @ [audio_A, audio_B]))
   \<and> audioQueue (state_after (example_recording @ [audio_A, audio_B])) \<noteq> []
   \<and> audioQueue (disconnect (lit ''10:00:05'')
        (state_after (example_recording @ [audio_A, audio_B]))) = []
   \<and> \<not> isPlaying (disconnect (lit ''10:00:05'')
        (state_after (example_recording @ [audio_A, audio_B])))
   \<and> currentAudio (disconnect (lit ''10:00:05'')
        (state_after (example_recording @ [audio_A, audio_B]))) = None
   \<and> audio_status (audios (disconnect (lit ''10:00:05'')
        (state_after (example_recording @ [audio_A, audio_B]))) ! 0) = Paused
   \<and> rec_state (recorders (disconnect (lit ''10:00:05'')
        (state_after (example_recording @ [audio_A, audio_B]))) ! 0) = Inactive
   \<and> readyState (clients (disconnect (lit ''10:00:05'')
        (state_after (example_recording @ [audio_A, audio_B]))) ! 0) = CLOSING
   \<and> trace (disconnect (lit ''10:00:05'') (state_after (example_recording @ [audio_A, audio_B])))
       = trace (state_after (example_recording @ [audio_A, audio_B])) @ [ClientDisconnect 0]
   \<and> gif_click (lit ''10:00:05'') example_started = unawaited (connect example_started)
   \<and> trace (unawaited (connect example_started))
       = trace example_started @
           [CreateConfig (Some (lit ''tok'')), CreateClient (lit ''tok''), ClientConnect 1]
   \<and> client (unawaited (connect example_started)) = Some 1
   \<and> step (Click (lit ''10:00:05'')) example_started
       = gif_click (lit ''10:00:05'') example_started"
proof -
  have h1: "client example_page = None"
    by code_simp
  have h2: "client (state_after (example_recording @ [audio_A, audio_B])) = Some 0
            \<and> 0 < length (clients (state_after (example_recording @ [audio_A, audio_B])))
            \<and> readyState (clients (state_after (example_recording @ [audio_A, audio_B])) ! 0) = OPEN"
    by code_simp
  have h2r: "recorder (state_after (example_recording @ [audio_A, audio_B])) = Some 0
            \<and> 0 < length (recorders (state_after (example_recording @ [audio_A, audio_B])))"
    by code_simp
  have h2a: "currentAudio (state_after (example_recording @ [audio_A, audio_B])) = Some 0
            \<and> 0 < length (audios (state_after (example_recording @ [audio_A, audio_B])))
            \<and> audio_status (audios (state_after (example_recording @ [audio_A, audio_B])) ! 0)
                = Playing"
    by code_simp
  have h2q: "audioQueue (state_after (example_recording @ [audio_A, audio_B])) \<noteq> []"
    by code_simp
  have h3: "client example_started = Some 0
            \<and> \<not> (0 < length (clients example_started)
                 \<and> readyState (clients example_started ! 0) = OPEN)"
    by code_simp
  have h3g: "gif example_started = Some True"
    by code_simp
  have h3t: "accessToken example_started = Some (lit ''tok'')"
    by code_simp
  have h3l: "length (clients example_started) = 1"
    by code_simp
  note a = gif_click_dispatch [where s = example_page and now = "lit ''10:00:05''"]
  note b = gif_click_dispatch [where s = "state_after (example_recording @ [audio_A, audio_B])"
      and now = "lit ''10:00:05''" and i = 0 and r = 0 and a = 0]
  note c = gif_click_dispatch [where s = example_started and now = "lit ''10:00:05''" and i = 0
      and token = "lit ''tok''"]
  have "gif_click (lit ''10:00:05'') example_page = example_page"
    using a h1 by blast
  moreover have "gif_click (lit ''10:00:05'') (state_after (example_recording @ [audio_A, audio_B]))
       = disconnect (lit ''10:00:05'') (state_after (example_recording @ [audio_A, audio_B]))"
    using b h2 by blast
  moreover note h2q
  moreover have "audioQueue (disconnect (lit ''10:00:05'')
        (state_after (example_recording @ [audio_A, audio_B]))) = []"
    using b by blast
  moreover have "\<not> isPlaying (disconnect (lit ''10:00:05'')
        (state_after (example_recording @ [audio_A, audio_B])))"
    using b by blast
  moreover have "currentAudio (disconnect (lit ''10:00:05'')
        (state_after (example_recording @ [audio_A, audio_B]))) = None"
    using b by blast
  moreover have "audio_status (audios (disconnect (lit ''10:00:05'')
        (state_after (example_recording @ [audio_A, audio_B]))) ! 0) = Paused"
    using b h2a by blast
  moreover have "rec_state (recorders (disconnect (lit ''10:00:05'')
        (state_after (example_recording @ [audio_A, audio_B]))) ! 0) = Inactive"
    using b h2r by blast
  moreover have "readyState (clients (disconnect (lit ''10:00:05'')
        (state_after (example_recording @ [audio_A, audio_B]))) ! 0) = CLOSING"
    using b h2 by blast
  moreover have "trace (disconnect (lit ''10:00:05'')
        (state_after (example_recording @ [audio_A, audio_B])))
       = trace (state_after (example_recording @ [audio_A, audio_B])) @ [ClientDisconnect 0]"
    using b h2 by blast
  moreover have "gif_click (lit ''10:00:05'') example_started = unawaited (connect example_started)"
    using c h3 by blast
  moreover have "trace (unawaited (connect example_started))
       = trace example_started @
           [CreateConfig (Some (lit ''tok'')), CreateClient (lit ''tok''), ClientConnect 1]"
    using c h3t h3l by simp
  moreover have "client (unawaited (connect example_started)) = Some 1"
    using c h3t h3l by simp
  moreover have "step (Click (lit ''10:00:05'')) example_started
       = gif_click (lit ''10:00:05'') example_started"
    using c h3g by blast
  ultimately show ?thesis by (intro conjI)
qed

text \<open>
  C9. The \<open>dataavailable\<close> handler of the recorder discards a chunk, and neither awaits
  its buffer nor calls \<open>sendAudio\<close>, unless the chunk's size is above zero and the
  client's \<open>readyState\<close> is \<open>OPEN\<close> when the handler runs; only then the buffer is
  awaited and sent. So whatever has been sent, or is awaited to be sent, was delivered
  by a \<open>dataavailable\<close> event at a moment when both held.
\<close>

theorem ondataavailable_guard:
  "(\<not> (length data > 0 \<and> client_is_open s) \<longrightarrow> ondataavailable data s = s)
   \<and> (length data > 0 \<and> client_is_open s \<longrightarrow>
        ondataavailable data s = s\<lparr>pendingBuffers := pendingBuffers s @ [data]\<rparr>)
   \<and> sent (ondataavailable data s) = sent s
   \<and> client_is_open s =
        (\<exists>i. client s = Some i \<and> i < length (clients s) \<and> readyState (clients s ! i) = OPEN)
   \<and> (pendingBuffers s = [] \<and> sent s = [] \<and> run es s = Some s' \<longrightarrow>
        set (pendingBuffers s') \<union> set (sent s') \<subseteq> set (passed_guard es s))"
proof (intro conjI impI)
  assume "pendingBuffers s = [] \<and> sent s = [] \<and> run es s = Some s'"
  then show "set (pendingBuffers s') \<union> set (sent s') \<subseteq> set (passed_guard es s)"
    using run_upload [of es s s'] by simp
next
  show "client_is_open s =
        (\<exists>i. client s = Some i \<and> i < length (clients s) \<and> readyState (clients s ! i) = OPEN)"
    by (cases "client s") (simp_all add: client_is_open_def)
qed (simp_all add: ondataavailable_def sent_def)

theorem ondataavailable_guard_witness:
  "ondataavailable [] (state_after example_recording) = state_after example_recording
   \<and> ondataavailable example_chunk example_started = example_started
   \<and> ondataavailable example_chunk (state_after example_recording)
       = (state_after example_recording)
           \<lparr>pendingBuffers := pendingBuffers (state_after example_recording) @ [example_chunk]\<rparr>
   \<and> set (pendingBuffers (state_after example_session)) \<union> set (sent (state_after example_session))
       \<subseteq> set (passed_guard example_session example_started)
   \<and> sent (state_after example_session) = [example_chunk]"
proof -
  have h1: "client_is_open (state_after example_recording)"
    by code_simp
  have h2: "\<not> client_is_open example_started"
    by code_simp
  have h3: "pendingBuffers example_started = [] \<and> sent example_started = []
            \<and> run example_session example_started = Some (state_after example_session)"
    by code_simp
  have h4: "sent (state_after example_session) = [example_chunk]"
    by code_simp
  have h5: "length example_chunk > 0"
    by code_simp
  have "ondataavailable [] (state_after example_recording) = state_after example_recording"
    using ondataavailable_guard [where data = "[]" and s = "state_after example_recording"]
    by simp
  moreover have "ondataavailable example_chunk example_started = example_started"
    using ondataavailable_guard [where data = "example_chunk" and s = example_started] h2
    by blast
  moreover have "ondataavailable example_chunk (state_after example_recording)
       = (state_after example_recording)
           \<lparr>pendingBuffers := pendingBuffers (state_after example_recording) @ [example_chunk]\<rparr>"
    using ondataavailable_guard [where data = "example_chunk" and s = "state_after example_recording"]
      h1 h5
    by blast
  moreover have "set (pendingBuffers (state_after example_session))
        \<union> set (sent (state_after example_session))
       \<subseteq> set (passed_guard example_session example_started)"
    using ondataavailable_guard [where s = example_started and es = example_session
        and s' = "state_after example_session"] h3
    by blast
  ultimately show ?thesis using h4 by blast
qed




text \<open>
  C4. An error raised by \<open>getAudioStream\<close> in \<open>requestMicrophonePermission\<close>, or by
  \<open>fetch\<close> or \<open>res.json()\<close> in \<open>authenticate\<close>, is caught and logged to the console;
  the function returns normally, with no error to its caller, and the call that failed
  is made once, not again.
\<close>

theorem errors_logged_not_rethrown:
  "requestMicrophonePermission (StreamRejected e) s =
     (None, s\<lparr>trace := trace s @
        [GetAudioStream, ConsoleError (lit ''Failed to get microphone permission:'') e]\<rparr>)
   \<and> (btoa (or_empty k @ lit '':'' @ or_empty sec) = Inr encoded \<longrightarrow>
        authenticate k sec (FetchRejected e) s =
          (None, s\<lparr>trace := trace s @
             [Fetch (token_request encoded), ConsoleError (lit ''Failed to authenticate:'') e]\<rparr>)
        \<and> authenticate k sec (FetchResolved (JsonRejected e)) s =
          (None, s\<lparr>trace := trace s @
             [Fetch (token_request encoded), ResJson,
              ConsoleError (lit ''Failed to authenticate:'') e]\<rparr>))"
  by (simp add: requestMicrophonePermission_log mic_log_def authenticate_fetch_rejected
      authenticate_json_rejected)

theorem errors_logged_not_rethrown_witness:
  "authenticate (Some (lit ''key'')) None (FetchRejected (External (lit ''NetworkError'')))
      example_page =
     (None, example_page\<lparr>trace := trace example_page @
        [Fetch (token_request (lit ''a2V5Og=='')),
         ConsoleError (lit ''Failed to authenticate:'') (External (lit ''NetworkError''))]\<rparr>)
   \<and> authenticate (Some (lit ''key'')) None
      (FetchResolved (JsonRejected (External (lit ''SyntaxError'')))) example_page =
     (None, example_page\<lparr>trace := trace example_page @
        [Fetch (token_request (lit ''a2V5Og=='')), ResJson,
         ConsoleError (lit ''Failed to authenticate:'') (External (lit ''SyntaxError''))]\<rparr>)"
proof -
  have h: "btoa (or_empty (Some (lit ''key'')) @ lit '':'' @ or_empty None) = Inr (lit ''a2V5Og=='')"
    by code_simp
  show ?thesis
    using errors_logged_not_rethrown [where k = "Some (lit ''key'')" and sec = None
        and encoded = "lit ''a2V5Og==''" and e = "External (lit ''NetworkError'')"
        and s = example_page]
      errors_logged_not_rethrown [where k = "Some (lit ''key'')" and sec = None
        and encoded = "lit ''a2V5Og==''" and e = "External (lit ''SyntaxError'')"
        and s = example_page] h
    by blast
qed

text \<open>
  C7. When \<open>authenticate\<close> completes without an error (\<open>btoa\<close> accepts the credentials,
  \<open>fetch\<close> and \<open>res.json()\<close> resolve, the field can be read and \<open>String\<close> converts
  it), the stored access token is the string that \<open>String\<close> gives for the
  \<open>access_token\<close> field of the response (the field itself where it is a string) to
  one POST request to the token endpoint, with the header \<open>Authorization: Basic\<close>
  followed by the base64 text of the API key, a colon and the client secret (each empty
  when unset), and with the body \<open>grant_type=client_credentials\<close>. Where \<open>String\<close>
  throws, the error is logged and no token is stored.
\<close>

theorem authenticate_stores_token:
  assumes "btoa (or_empty k @ lit '':'' @ or_empty sec) = Inr encoded"
    and "get_property data (lit ''access_token'') = Inr v"
  shows "(String_js v = Inr token \<longrightarrow>
      authenticate k sec (FetchResolved (JsonResolved data)) s =
        (None, s\<lparr>trace := trace s @
           [Fetch \<lparr>req_url = lit ''https://api.hume.ai/oauth2-cc/token'',
                   req_method = lit ''POST'',
                   req_headers =
                     [(lit ''Content-Type'', lit ''application/x-www-form-urlencoded''),
                      (lit ''Authorization'', lit ''Basic '' @ encoded)],
                   req_body = lit ''grant_type=client_credentials'',
                   req_cache = lit ''no-cache''\<rparr>,
            ResJson],
           accessToken := Some token\<rparr>))
    \<and> (v = Str t \<longrightarrow>
      authenticate k sec (FetchResolved (JsonResolved data)) s =
        (None, s\<lparr>trace := trace s @
           [Fetch \<lparr>req_url = lit ''https://api.hume.ai/oauth2-cc/token'',
                   req_method = lit ''POST'',
                   req_headers =
                     [(lit ''Content-Type'', lit ''application/x-www-form-urlencoded''),
                      (lit ''Authorization'', lit ''Basic '' @ encoded)],
                   req_body = lit ''grant_type=client_credentials'',
                   req_cache = lit ''no-cache''\<rparr>,
            ResJson],
           accessToken := Some t\<rparr>))
    \<and> (String_js v = Inl e \<longrightarrow>
      authenticate k sec (FetchResolved (JsonResolved data)) s =
        (None, s\<lparr>trace := trace s @
           [Fetch \<lparr>req_url = lit ''https://api.hume.ai/oauth2-cc/token'',
                   req_method = lit ''POST'',
                   req_headers =
                     [(lit ''Content-Type'', lit ''application/x-www-form-urlencoded''),
                      (lit ''Authorization'', lit ''Basic '' @ encoded)],
                   req_body = lit ''grant_type=client_credentials'',
                   req_cache = lit ''no-cache''\<rparr>,
            ResJson, ConsoleError (lit ''Failed to authenticate:'') e]\<rparr>))"
proof (intro conjI impI)
  assume "String_js v = Inr token"
  from authenticate_stores [OF assms this, of s]
  show "authenticate k sec (FetchResolved (JsonResolved data)) s =
        (None, s\<lparr>trace := trace s @
           [Fetch \<lparr>req_url = lit ''https://api.hume.ai/oauth2-cc/token'',
                   req_method = lit ''POST'',
                   req_headers =
                     [(lit ''Content-Type'', lit ''application/x-www-form-urlencoded''),
                      (lit ''Authorization'', lit ''Basic '' @ encoded)],
                   req_body = lit ''grant_type=client_credentials'',
                   req_cache = lit ''no-cache''\<rparr>,
            ResJson],
           accessToken := Some token\<rparr>)"
    by (simp add: token_request_def token_body del: URLSearchParams_toString.simps)
next
  assume "v = Str t"
  then have "String_js v = Inr t" by simp
  from authenticate_stores [OF assms this, of s]
  show "authenticate k sec (FetchResolved (JsonResolved data)) s =
        (None, s\<lparr>trace := trace s @
           [Fetch \<lparr>req_url = lit ''https://api.hume.ai/oauth2-cc/token'',
                   req_method = lit ''POST'',
                   req_headers =
                     [(lit ''Content-Type'', lit ''application/x-www-form-urlencoded''),
                      (lit ''Authorization'', lit ''Basic '' @ encoded)],
                   req_body = lit ''grant_type=client_credentials'',
                   req_cache = lit ''no-cache''\<rparr>,
            ResJson],
           accessToken := Some t\<rparr>)"
    by (simp add: token_request_def token_body del: URLSearchParams_toString.simps)
next
  assume "String_js v = Inl e"
  from authenticate_no_string [OF assms this, of s]
  show "authenticate k sec (FetchResolved (JsonResolved data)) s =
        (None, s\<lparr>trace := trace s @
           [Fetch \<lparr>req_url = lit ''https://api.hume.ai/oauth2-cc/token'',
                   req_method = lit ''POST'',
                   req_headers =
                     [(lit ''Content-Type'', lit ''application/x-www-form-urlencoded''),
                      (lit ''Authorization'', lit ''Basic '' @ encoded)],
                   req_body = lit ''grant_type=client_credentials'',
                   req_cache = lit ''no-cache''\<rparr>,
            ResJson, ConsoleError (lit ''Failed to authenticate:'') e]\<rparr>)"
    by (simp add: token_request_def token_body del: URLSearchParams_toString.simps)
qed

theorem authenticate_stores_token_witness:
  "authenticate (Some (lit ''key'')) None
      (FetchResolved (JsonResolved (Obj [(lit ''access_token'', Str (lit ''tok''))]))) example_page =
     (None, example_page\<lparr>trace := trace example_page @
        [Fetch \<lparr>req_url = lit ''https://api.hume.ai/oauth2-cc/token'',
                req_method = lit ''POST'',
                req_headers =
                  [(lit ''Content-Type'', lit ''application/x-www-form-urlencoded''),
                   (lit ''Authorization'', lit ''Basic a2V5Og=='')],
                req_body = lit ''grant_type=client_credentials'',
                req_cache = lit ''no-cache''\<rparr>,
         ResJson],
        accessToken := Some (lit ''tok'')\<rparr>)
   \<and> accessToken (snd (authenticate (Some (lit ''key'')) None
        (FetchResolved (JsonResolved (Obj [(lit ''expires_in'', Num (lit ''1800''))]))) example_page))
       = Some (lit ''undefined'')
   \<and> authenticate (Some (lit ''key'')) None
      (FetchResolved (JsonResolved
         (Obj [(lit ''access_token'', Obj [(lit ''toString'', Num (lit ''1''))])]))) example_page =
     (None, example_page\<lparr>trace := trace example_page @
        [Fetch \<lparr>req_url = lit ''https://api.hume.ai/oauth2-cc/token'',
                req_method = lit ''POST'',
                req_headers =
                  [(lit ''Content-Type'', lit ''application/x-www-form-urlencoded''),
                   (lit ''Authorization'', lit ''Basic a2V5Og=='')],
                req_body = lit ''grant_type=client_credentials'',
                req_cache = lit ''no-cache''\<rparr>,
         ResJson, ConsoleError (lit ''Failed to authenticate:'') TypeError]\<rparr>)"
proof -
  have h: "btoa (or_empty (Some (lit ''key'')) @ lit '':'' @ or_empty None) = Inr (lit ''a2V5Og=='')"
    by code_simp
  have b: "lit ''Basic '' @ lit ''a2V5Og=='' = lit ''Basic a2V5Og==''"
    by (simp add: lit_def)
  have g1: "get_property (Obj [(lit ''access_token'', Str (lit ''tok''))]) (lit ''access_token'')
              = Inr (Str (lit ''tok''))"
    by code_simp
  have s1: "String_js (Str (lit ''tok'')) = Inr (lit ''tok'')"
    by code_simp
  have g2: "get_property (Obj [(lit ''expires_in'', Num (lit ''1800''))]) (lit ''access_token'')
              = Inr Undefined"
    by code_simp
  have s2: "String_js Undefined = Inr (lit ''undefined'')"
    by code_simp
  have g3: "get_property (Obj [(lit ''access_token'', Obj [(lit ''toString'', Num (lit ''1''))])])
              (lit ''access_token'') = Inr (Obj [(lit ''toString'', Num (lit ''1''))])"
    by code_simp
  have s3: "String_js (Obj [(lit ''toString'', Num (lit ''1''))]) = Inl TypeError"
    by code_simp
  have "authenticate (Some (lit ''key'')) None
      (FetchResolved (JsonResolved (Obj [(lit ''access_token'', Str (lit ''tok''))]))) example_page =
     (None, example_page\<lparr>trace := trace example_page @
        [Fetch \<lparr>req_url = lit ''https://api.hume.ai/oauth2-cc/token'',
                req_method = lit ''POST'',
                req_headers =
                  [(lit ''Content-Type'', lit ''application/x-www-form-urlencoded''),
                   (lit ''Authorization'', lit ''Basic a2V5Og=='')],
                req_body = lit ''grant_type=client_credentials'',
                req_cache = lit ''no-cache''\<rparr>,
         ResJson],
        accessToken := Some (lit ''tok'')\<rparr>)"
    using authenticate_stores_token [OF h g1, where token = "lit ''tok''" and t = "lit ''tok''"
        and s = example_page] s1 b
    by simp
  moreover have "accessToken (snd (authenticate (Some (lit ''key'')) None
        (FetchResolved (JsonResolved (Obj [(lit ''expires_in'', Num (lit ''1800''))]))) example_page))
       = Some (lit ''undefined'')"
    using authenticate_stores_token [OF h g2, where token = "lit ''undefined''"
        and s = example_page] s2
    by simp
  moreover have "authenticate (Some (lit ''key'')) None
      (FetchResolved (JsonResolved
         (Obj [(lit ''access_token'', Obj [(lit ''toString'', Num (lit ''1''))])]))) example_page =
     (None, example_page\<lparr>trace := trace example_page @
        [Fetch \<lparr>req_url = lit ''https://api.hume.ai/oauth2-cc/token'',
                req_method = lit ''POST'',
                req_headers =
                  [(lit ''Content-Type'', lit ''application/x-www-form-urlencoded''),
                   (lit ''Authorization'', lit ''Basic a2V5Og=='')],
                req_body = lit ''grant_type=client_credentials'',
                req_cache = lit ''no-cache''\<rparr>,
         ResJson, ConsoleError (lit ''Failed to authenticate:'') TypeError]\<rparr>)"
    using authenticate_stores_token [OF h g3, where e = TypeError and s = example_page] s3 b
    by simp
  ultimately show ?thesis by (intro conjI)
qed




text \<open>
  C6, as the code has it. The variables the program holds across events are the
  playback queue, the connection handle and the playing flag, and also the current
  audio element, the audio stream, the recorder and the access token, each of which is
  assigned by a function of the program; the mime type is never reassigned.
\<close>

theorem program_variables:
  "mimeType (step e s) = mimeType s \<and> mimeType (startup env s) = mimeType s
   \<and> (accessToken s = Some token \<longrightarrow> client (snd (connect s)) = Some (length (clients s)))
   \<and> audioStream (captureAudio_resume (StreamResolved st) te re s) = Some st
   \<and> recorder (captureAudio_resume (StreamResolved st) None None s) = Some (length (recorders s))
   \<and> (btoa (or_empty k @ lit '':'' @ or_empty sec) = Inr encoded
        \<and> get_property data (lit ''access_token'') = Inr v \<and> String_js v = Inr token \<longrightarrow>
        accessToken (snd (authenticate k sec (FetchResolved (JsonResolved data)) s))
          = Some token)
   \<and> (audioQueue s \<noteq> [] \<and> \<not> isPlaying s \<longrightarrow>
        isPlaying (playAudio s) \<and> currentAudio (playAudio s) = Some (length (audios s))
        \<and> audioQueue (playAudio s) = tl (audioQueue s))"
proof (intro conjI impI)
  show "mimeType (step e s) = mimeType s" by (rule step_mimeType)
  show "mimeType (startup env s) = mimeType s" by (rule mimeType_startup)
  show "audioStream (captureAudio_resume (StreamResolved st) te re s) = Some st"
    by (simp add: captureAudio_resume_def Let_def throw_def split: option.splits)
  show "recorder (captureAudio_resume (StreamResolved st) None None s) = Some (length (recorders s))"
    by (simp add: captureAudio_resume_def Let_def)
next
  assume "accessToken s = Some token"
  then show "client (snd (connect s)) = Some (length (clients s))" by simp
next
  assume "btoa (or_empty k @ lit '':'' @ or_empty sec) = Inr encoded
        \<and> get_property data (lit ''access_token'') = Inr v \<and> String_js v = Inr token"
  then show "accessToken (snd (authenticate k sec (FetchResolved (JsonResolved data)) s))
          = Some token"
    by (simp add: authenticate_stores)
next
  assume a: "audioQueue s \<noteq> [] \<and> \<not> isPlaying s"
  then have "playback (playAudio s) =
      (audios s @ [\<lparr>audio_src = hd (audioQueue s), audio_status = Playing\<rparr>],
       Some (length (audios s)), True, tl (audioQueue s))"
    by (simp add: playback_playAudio)
  then show "isPlaying (playAudio s)" and "currentAudio (playAudio s) = Some (length (audios s))"
    and "audioQueue (playAudio s) = tl (audioQueue s)"
    by (simp_all add: playback_def)
qed

theorem program_variables_witness:
  "accessToken (snd (authenticate (Some (lit ''key'')) None
      (FetchResolved (JsonResolved (Obj [(lit ''access_token'', Str (lit ''tok''))]))) example_page))
     = Some (lit ''tok'')
   \<and> client example_started = Some 0
   \<and> client (snd (connect example_started)) = Some 1
   \<and> mimeType (step audio_A (state_after example_recording))
       = mimeType (state_after example_recording)
   \<and> currentAudio (playAudio
        ((state_after example_recording)\<lparr>audioQueue := [Blob [0x41] (lit ''audio/webm'')]\<rparr>))
       = Some 0"
proof -
  have h1: "btoa (or_empty (Some (lit ''key'')) @ lit '':'' @ or_empty None) = Inr (lit ''a2V5Og=='')
        \<and> get_property (Obj [(lit ''access_token'', Str (lit ''tok''))]) (lit ''access_token'')
            = Inr (Str (lit ''tok''))
        \<and> String_js (Str (lit ''tok'')) = Inr (lit ''tok'')"
    by code_simp
  have h2: "audioQueue ((state_after example_recording)
              \<lparr>audioQueue := [Blob [0x41] (lit ''audio/webm'')]\<rparr>) \<noteq> []
        \<and> \<not> isPlaying ((state_after example_recording)
              \<lparr>audioQueue := [Blob [0x41] (lit ''audio/webm'')]\<rparr>)
        \<and> length (audios ((state_after example_recording)
              \<lparr>audioQueue := [Blob [0x41] (lit ''audio/webm'')]\<rparr>)) = 0"
    by code_simp
  have h3: "client example_started = Some 0 \<and> length (clients example_started) = 1
        \<and> accessToken example_started = Some (lit ''tok'')"
    by code_simp
  have "accessToken (snd (authenticate (Some (lit ''key'')) None
      (FetchResolved (JsonResolved (Obj [(lit ''access_token'', Str (lit ''tok''))]))) example_page))
     = Some (lit ''tok'')"
    using program_variables [where k = "Some (lit ''key'')" and sec = None
        and encoded = "lit ''a2V5Og==''"
        and data = "Obj [(lit ''access_token'', Str (lit ''tok''))]" and v = "Str (lit ''tok'')"
        and token = "lit ''tok''" and s = example_page] h1
    by blast
  moreover have "client example_started = Some 0"
    using h3 by simp
  moreover have "client (snd (connect example_started)) = Some 1"
    using program_variables [where s = example_started and token = "lit ''tok''"] h3
    by simp
  moreover have "mimeType (step audio_A (state_after example_recording))
       = mimeType (state_after example_recording)"
    using program_variables [where e = audio_A and s = "state_after example_recording"]
    by blast
  moreover have "currentAudio (playAudio
        ((state_after example_recording)\<lparr>audioQueue := [Blob [0x41] (lit ''audio/webm'')]\<rparr>))
       = Some 0"
    using program_variables [where s = "(state_after example_recording)
              \<lparr>audioQueue := [Blob [0x41] (lit ''audio/webm'')]\<rparr>"] h2
    by metis
  ultimately show ?thesis by (intro conjI)
qed

text \<open>
  C6, as stated, fails: the first \<open>audio_output\<close> message changes the current audio
  element, a variable that is none of the three and that \<open>stopAudio\<close> reads at a later
  event.
\<close>

theorem other_variables_change:
  "enabled (state_after example_recording) audio_A
   \<and> \<not> differs_in_three_only (state_after example_recording)
         (step audio_A (state_after example_recording))
   \<and> currentAudio (state_after example_recording) = None
   \<and> currentAudio (step audio_A (state_after example_recording)) = Some 0"
  by code_simp

text \<open>
  C8. At most one audio blob is in playback at a time. The code holds this as long as
  \<open>stopAudio\<close> is not called while an \<open>ended\<close> event is queued (lemma
  \<open>single_playback\<close>). It fails otherwise: the first blob reaches its end, an
  interruption and a second blob are handled before its \<open>ended\<close> event is dispatched,
  the callback of the first element then clears the flag while the second is playing
  (it does not ask which element has ended), and a third blob starts beside the second.
\<close>

theorem stale_ended_overlap:
  "run example_race example_started = Some (state_after example_race)
   \<and> map audio_status (audios (state_after example_stale)) = [Ended, Playing]
   \<and> \<not> isPlaying (state_after example_stale)
   \<and> map audio_status (audios (state_after example_race)) = [Ended, Playing, Playing]
   \<and> map audio_src (audios (state_after example_race)) =
       [Blob [0x41] (lit ''audio/webm''), Blob [0x42] (lit ''audio/webm''),
        Blob [0x43] (lit ''audio/webm'')]
   \<and> playing (state_after example_race) = [1, 2]
   \<and> \<not> no_stop_before_ended example_race example_started"
  by code_simp

end
